theory Spec2Isabelle
  imports Complex_Main
begin

section \<open>Values of the host language\<close>

text \<open>
  The sources are TypeScript; the cells of an imported sheet are untyped values. The
  model keeps the value kinds a cell can hold and the conversions the code applies to
  them. A number is an IEEE double in the source: here it is \<open>NaN\<close>, an infinity or an
  exact rational (rounding and overflow of doubles are not modelled, and the two zeros
  are one).
\<close>

datatype jsnum = NaN | PInf | NInf | Fin rat

text \<open>A \<^verbatim>\<open>Date\<close> object holds a time value: milliseconds since 1970-01-01T00:00:00Z, or
  \<^verbatim>\<open>NaN\<close> for an "Invalid Date".\<close>

datatype jsdate = Invalid | Time int

datatype jsval = Undefined | Null | Bool bool | Num jsnum | Str string | DateObj jsdate

datatype exn = RangeError | Error string

text \<open>Truthiness, as tested by \<^verbatim>\<open>!x\<close>, \<^verbatim>\<open>x || y\<close>, \<^verbatim>\<open>x ? a : b\<close>.\<close>

fun truthy_num :: "jsnum \<Rightarrow> bool" where
  "truthy_num NaN = False"
| "truthy_num (Fin q) = (q \<noteq> 0)"
| "truthy_num _ = True"

fun truthy :: "jsval \<Rightarrow> bool" where
  "truthy Undefined = False"
| "truthy Null = False"
| "truthy (Bool b) = b"
| "truthy (Num x) = truthy_num x"
| "truthy (Str s) = (s \<noteq> [])"
| "truthy (DateObj d) = True"

text \<open>\<^verbatim>\<open>x || 0\<close> on a number.\<close>

definition orZero :: "jsnum \<Rightarrow> jsnum" where
  "orZero x = (if truthy_num x then x else Fin 0)"

subsection \<open>Arithmetic and comparison on numbers\<close>

fun num_neg :: "jsnum \<Rightarrow> jsnum" where
  "num_neg NaN = NaN"
| "num_neg PInf = NInf"
| "num_neg NInf = PInf"
| "num_neg (Fin q) = Fin (- q)"

fun num_add :: "jsnum \<Rightarrow> jsnum \<Rightarrow> jsnum" where
  "num_add (Fin a) (Fin b) = Fin (a + b)"
| "num_add NaN _ = NaN"
| "num_add _ NaN = NaN"
| "num_add PInf NInf = NaN"
| "num_add NInf PInf = NaN"
| "num_add PInf _ = PInf"
| "num_add NInf _ = NInf"
| "num_add _ PInf = PInf"
| "num_add _ NInf = NInf"

definition num_sub :: "jsnum \<Rightarrow> jsnum \<Rightarrow> jsnum" where
  "num_sub a b = num_add a (num_neg b)"

fun num_sgn :: "jsnum \<Rightarrow> int" where
  "num_sgn PInf = 1"
| "num_sgn NInf = - 1"
| "num_sgn (Fin q) = (if q < 0 then - 1 else if q = 0 then 0 else 1)"
| "num_sgn NaN = 0"

fun num_mul :: "jsnum \<Rightarrow> jsnum \<Rightarrow> jsnum" where
  "num_mul (Fin a) (Fin b) = Fin (a * b)"
| "num_mul NaN _ = NaN"
| "num_mul _ NaN = NaN"
| "num_mul a b =
     (let s = num_sgn a * num_sgn b
      in if s = 0 then NaN else if s < 0 then NInf else PInf)"

text \<open>\<^verbatim>\<open>a <= b\<close> and \<^verbatim>\<open>a > b\<close>: false whenever an operand is \<^verbatim>\<open>NaN\<close>.\<close>

fun num_le :: "jsnum \<Rightarrow> jsnum \<Rightarrow> bool" where
  "num_le NaN _ = False"
| "num_le _ NaN = False"
| "num_le (Fin a) (Fin b) = (a \<le> b)"
| "num_le NInf _ = True"
| "num_le _ PInf = True"
| "num_le _ _ = False"

text \<open>\<^verbatim>\<open>Math.max(0, x)\<close>.\<close>

fun Math_max0 :: "jsnum \<Rightarrow> jsnum" where
  "Math_max0 NaN = NaN"
| "Math_max0 PInf = PInf"
| "Math_max0 NInf = Fin 0"
| "Math_max0 (Fin q) = Fin (max 0 q)"

text \<open>Truncation toward zero (\<^verbatim>\<open>ToIntegerOrInfinity\<close> on a finite number).\<close>

definition trunc :: "rat \<Rightarrow> int" where
  "trunc q = (if q < 0 then \<lceil>q\<rceil> else \<lfloor>q\<rfloor>)"

subsection \<open>Dates\<close>

text \<open>
  The local time zone is taken to be UTC with no daylight saving, so that local
  calendar fields and UTC calendar fields coincide. The day arithmetic is that of the
  language standard: \<^verbatim>\<open>DayFromYear\<close>, \<^verbatim>\<open>MakeDay\<close>, \<^verbatim>\<open>TimeClip\<close>.
\<close>

definition msPerDay :: int where
  "msPerDay = 86400000"

definition TimeClip :: "jsnum \<Rightarrow> jsdate" where
  "TimeClip x =
     (case x of
        Fin q \<Rightarrow> (if \<bar>q\<bar> > 8640000000000000 then Invalid else Time (trunc q))
      | _ \<Rightarrow> Invalid)"

definition getTime :: "jsdate \<Rightarrow> jsnum" where
  "getTime d = (case d of Invalid \<Rightarrow> NaN | Time t \<Rightarrow> Fin (of_int t))"

definition DayFromYear :: "int \<Rightarrow> int" where
  "DayFromYear y =
     365 * (y - 1970) + (y - 1969) div 4 - (y - 1901) div 100 + (y - 1601) div 400"

definition InLeapYear :: "int \<Rightarrow> bool" where
  "InLeapYear y = (if y mod 4 = 0 then (if y mod 100 = 0 then y mod 400 = 0 else True) else False)"

definition DaysBeforeMonth :: "int \<Rightarrow> int \<Rightarrow> int" where
  "DaysBeforeMonth y mn =
     [0, 31, 59, 90, 120, 151, 181, 212, 243, 273, 304, 334] ! nat mn
       + (if 2 \<le> mn \<and> InLeapYear y then 1 else 0)"

text \<open>\<^verbatim>\<open>MakeDay(year, month, date)\<close>: the month index may lie outside 0..11 and the day
  outside the month; both carry over.\<close>

definition MakeDay :: "int \<Rightarrow> int \<Rightarrow> int \<Rightarrow> int" where
  "MakeDay year month date =
     (let ym = year + month div 12; mn = month mod 12
      in DayFromYear ym + DaysBeforeMonth ym mn + date - 1)"

definition MakeFullYear :: "int \<Rightarrow> int" where
  "MakeFullYear y = (if 0 \<le> y \<and> y \<le> 99 then 1900 + y else y)"

text \<open>\<^verbatim>\<open>new Date(value)\<close> on a number, and \<^verbatim>\<open>new Date(year, monthIndex, day)\<close>.\<close>

definition newDate_num :: "jsnum \<Rightarrow> jsdate" where
  "newDate_num x = TimeClip x"

definition newDate_ymd :: "jsnum \<Rightarrow> jsnum \<Rightarrow> jsnum \<Rightarrow> jsdate" where
  "newDate_ymd year month day =
     (case (year, month, day) of
        (Fin y, Fin m, Fin dt) \<Rightarrow>
          TimeClip (Fin (of_int (MakeDay (MakeFullYear (trunc y)) (trunc m) (trunc dt) * msPerDay)))
      | _ \<Rightarrow> Invalid)"

text \<open>\<^verbatim>\<open>isValid\<close> of the date library and \<^verbatim>\<open>isNaN(d.getTime())\<close> test the same thing.\<close>

definition isValid :: "jsdate \<Rightarrow> bool" where
  "isValid d = (case d of Invalid \<Rightarrow> False | Time t \<Rightarrow> True)"

text \<open>
  \<^verbatim>\<open>toISOString\<close> raises a \<^verbatim>\<open>RangeError\<close> on an invalid date. The ISO text of a valid
  date determines its time value and is determined by it, so the text is represented
  by the time value it spells.
\<close>

datatype isotext = ISO int

definition toISOString :: "jsdate \<Rightarrow> exn + isotext" where
  "toISOString d = (case d of Invalid \<Rightarrow> Inl RangeError | Time t \<Rightarrow> Inr (ISO t))"

subsection \<open>Strings\<close>

text \<open>
  A string is a list of code units below 256. \<^verbatim>\<open>trim\<close> removes white space and line
  terminators at both ends; of these, tab, line feed, vertical tab, form feed, carriage
  return, space and no-break space lie in that range.
\<close>

definition isWhiteSpace :: "char \<Rightarrow> bool" where
  "isWhiteSpace c =
     (c = CHR 0x09 \<or> c = CHR 0x0A \<or> c = CHR 0x0B \<or> c = CHR 0x0C \<or> c = CHR 0x0D
      \<or> c = CHR 0x20 \<or> c = CHR 0xA0)"

definition trim :: "string \<Rightarrow> string" where
  "trim s = rev (dropWhile isWhiteSpace (rev (dropWhile isWhiteSpace s)))"

definition includes_char :: "string \<Rightarrow> char \<Rightarrow> bool" where
  "includes_char s c = List.member s c"

text \<open>The value of a digit in a radix, if the character is one.\<close>

definition digitVal :: "nat \<Rightarrow> char \<Rightarrow> nat option" where
  "digitVal radix c =
     (let k = (of_char c :: nat);
          v = (if 48 \<le> k \<and> k \<le> 57 then k - 48
               else if 97 \<le> k \<and> k \<le> 122 then k - 87
               else if 65 \<le> k \<and> k \<le> 90 then k - 55
               else radix)
      in if v < radix then Some v else None)"

definition isDigit :: "char \<Rightarrow> bool" where
  "isDigit c = (digitVal 10 c \<noteq> None)"

fun digitsVal :: "nat \<Rightarrow> nat \<Rightarrow> string \<Rightarrow> nat" where
  "digitsVal radix acc [] = acc"
| "digitsVal radix acc (c # cs) =
     digitsVal radix (acc * radix + (case digitVal radix c of Some v \<Rightarrow> v | None \<Rightarrow> 0)) cs"

definition allDigits :: "nat \<Rightarrow> string \<Rightarrow> bool" where
  "allDigits radix s = list_all (\<lambda>c. digitVal radix c \<noteq> None) s"

text \<open>\<^verbatim>\<open>parseInt(s)\<close> with no radix: leading white space, a sign, an optional
  \<^verbatim>\<open>0x\<close> prefix, then the longest run of digits; \<^verbatim>\<open>NaN\<close> when that run is empty.\<close>

definition parseInt :: "string \<Rightarrow> jsnum" where
  "parseInt s =
     (let s1 = dropWhile isWhiteSpace s;
          neg = (take 1 s1 = ''-'');
          s2 = (if take 1 s1 = ''-'' \<or> take 1 s1 = ''+'' then drop 1 s1 else s1);
          hex = (take 2 s2 = ''0x'' \<or> take 2 s2 = ''0X'');
          radix = (if hex then 16 else 10);
          s3 = (if hex then drop 2 s2 else s2);
          z = takeWhile (\<lambda>c. digitVal radix c \<noteq> None) s3
      in if z = [] then NaN
         else Fin (of_int ((if neg then - 1 else 1) * int (digitsVal radix 0 z))))"

text \<open>
  \<^verbatim>\<open>Number(s)\<close> on a string: the trimmed text is empty (zero), a radix-prefixed integer
  literal, or an optionally signed decimal literal (\<^verbatim>\<open>Infinity\<close>, or digits with an
  optional fraction and exponent); anything else is \<^verbatim>\<open>NaN\<close>.
\<close>

definition prefixedLiteral :: "nat \<Rightarrow> string \<Rightarrow> jsnum" where
  "prefixedLiteral radix ds =
     (if ds \<noteq> [] \<and> allDigits radix ds then Fin (of_nat (digitsVal radix 0 ds)) else NaN)"

definition scale10 :: "rat \<Rightarrow> int \<Rightarrow> rat" where
  "scale10 m e = (if 0 \<le> e then m * 10 ^ nat e else m / 10 ^ nat (- e))"

definition exponentPart :: "string \<Rightarrow> int option" where
  "exponentPart s =
     (if s = [] then Some 0
      else if take 1 s = ''e'' \<or> take 1 s = ''E'' then
        (let r = drop 1 s;
             neg = (take 1 r = ''-'');
             ds = (if take 1 r = ''-'' \<or> take 1 r = ''+'' then drop 1 r else r)
         in if ds \<noteq> [] \<and> allDigits 10 ds
            then Some ((if neg then - 1 else 1) * int (digitsVal 10 0 ds)) else None)
      else None)"

definition unsignedDecimal :: "string \<Rightarrow> jsnum" where
  "unsignedDecimal s =
     (if s = ''Infinity'' then PInf
      else
        (let ip = takeWhile isDigit s;
             r1 = dropWhile isDigit s;
             dot = (take 1 r1 = ''.'');
             fp = (if dot then takeWhile isDigit (drop 1 r1) else []);
             r2 = (if dot then dropWhile isDigit (drop 1 r1) else r1)
         in if ip = [] \<and> fp = [] then NaN
            else (case exponentPart r2 of
                    None \<Rightarrow> NaN
                  | Some e \<Rightarrow>
                      Fin (scale10 (of_nat (digitsVal 10 0 ip)
                             + of_nat (digitsVal 10 0 fp) / 10 ^ length fp) e))))"

definition StringToNumber :: "string \<Rightarrow> jsnum" where
  "StringToNumber s =
     (let t = trim s
      in if t = [] then Fin 0
         else if take 2 t = ''0x'' \<or> take 2 t = ''0X'' then prefixedLiteral 16 (drop 2 t)
         else if take 2 t = ''0o'' \<or> take 2 t = ''0O'' then prefixedLiteral 8 (drop 2 t)
         else if take 2 t = ''0b'' \<or> take 2 t = ''0B'' then prefixedLiteral 2 (drop 2 t)
         else if take 1 t = ''-'' then num_neg (unsignedDecimal (drop 1 t))
         else if take 1 t = ''+'' then unsignedDecimal (drop 1 t)
         else unsignedDecimal t)"

text \<open>\<^verbatim>\<open>Number(v)\<close> on any cell value.\<close>

fun Number :: "jsval \<Rightarrow> jsnum" where
  "Number Undefined = NaN"
| "Number Null = Fin 0"
| "Number (Bool b) = (if b then Fin 1 else Fin 0)"
| "Number (Num x) = x"
| "Number (Str s) = StringToNumber s"
| "Number (DateObj d) = getTime d"

text \<open>\<^verbatim>\<open>s.split(sep)\<close> on a one-character separator.\<close>

fun split :: "char \<Rightarrow> string \<Rightarrow> string list" where
  "split sep [] = [[]]"
| "split sep (c # cs) =
     (if c = sep then [] # split sep cs
      else (case split sep cs of [] \<Rightarrow> [[c]] | p # ps \<Rightarrow> (c # p) # ps))"

text \<open>
  The three regular expressions of \<^verbatim>\<open>parseExcelDate\<close> are anchored at both ends and
  made of \<^verbatim>\<open>\d\<close> and literal characters only; \<open>shape p s\<close> matches \<open>s\<close> against such a
  pattern, with \<open>d\<close> in \<open>p\<close> standing for \<^verbatim>\<open>\d\<close>.
\<close>

fun shape :: "string \<Rightarrow> string \<Rightarrow> bool" where
  "shape [] [] = True"
| "shape (p # ps) (c # cs) = ((if p = CHR ''d'' then isDigit c else c = p) \<and> shape ps cs)"
| "shape _ _ = False"

section \<open>Libraries and environment\<close>

text \<open>
  The code calls a date library (\<^verbatim>\<open>date-fns\<close>), a spreadsheet decoder (\<^verbatim>\<open>xlsx\<close>) and
  built-ins whose results the language leaves to the implementation. They are not part
  of the repository; every definition below takes them as a parameter \<open>L\<close>, and every
  theorem holds for any such library.
  \<^item> \<open>Date_parse\<close>: \<^verbatim>\<open>new Date(s)\<close> on a string.
  \<^item> \<open>fns_parse\<close>: \<^verbatim>\<open>parse(s, format, referenceDate)\<close>; it may raise.
  \<^item> \<open>fns_parseISO\<close>: \<^verbatim>\<open>parseISO(s)\<close>; it may raise.
  \<^item> \<open>fns_addMonths\<close>, \<open>fns_differenceInDays\<close>, \<open>fns_differenceInMonths\<close>: the library
    functions on the time values of valid dates. On an invalid date the library returns
    an invalid date, respectively \<^verbatim>\<open>NaN\<close>; the wrappers below say so.
  \<^item> \<open>String_conv\<close>: \<^verbatim>\<open>String(v)\<close>.
  \<^item> \<open>XLSX_read\<close>: \<^verbatim>\<open>XLSX.read(bstr, {type: "binary"})\<close>; it raises on a payload that
    is no spreadsheet. A workbook is the list of its named sheets, and a sheet is
    represented by the rows \<^verbatim>\<open>XLSX.utils.sheet_to_json\<close> yields for it.
\<close>

type_synonym row = "(string \<times> jsval) list"

record lib =
  Date_parse :: "string \<Rightarrow> jsdate"
  fns_parse :: "string \<Rightarrow> string \<Rightarrow> jsdate \<Rightarrow> exn + jsdate"
  fns_parseISO :: "string \<Rightarrow> exn + jsdate"
  fns_addMonths :: "int \<Rightarrow> jsnum \<Rightarrow> jsdate"
  fns_differenceInDays :: "int \<Rightarrow> int \<Rightarrow> int"
  fns_differenceInMonths :: "int \<Rightarrow> int \<Rightarrow> int"
  String_conv :: "jsval \<Rightarrow> string"
  XLSX_read :: "string \<Rightarrow> exn + (string \<times> row list) list"

definition addMonths :: "lib \<Rightarrow> jsdate \<Rightarrow> jsnum \<Rightarrow> jsdate" where
  "addMonths L d amount = (case d of Invalid \<Rightarrow> Invalid | Time t \<Rightarrow> fns_addMonths L t amount)"

definition differenceInDays :: "lib \<Rightarrow> jsdate \<Rightarrow> jsdate \<Rightarrow> jsnum" where
  "differenceInDays L a b =
     (case a of
        Invalid \<Rightarrow> NaN
      | Time x \<Rightarrow> (case b of Invalid \<Rightarrow> NaN
                   | Time y \<Rightarrow> Fin (of_int (fns_differenceInDays L x y))))"

definition differenceInMonths :: "lib \<Rightarrow> jsdate \<Rightarrow> jsdate \<Rightarrow> jsnum" where
  "differenceInMonths L a b =
     (case a of
        Invalid \<Rightarrow> NaN
      | Time x \<Rightarrow> (case b of Invalid \<Rightarrow> NaN
                   | Time y \<Rightarrow> Fin (of_int (fns_differenceInMonths L x y))))"

text \<open>
  The ambient clock: \<^verbatim>\<open>new Date()\<close> reads it. A clock is the sequence of its readings
  (time values); a computation that starts at reading \<open>n\<close> and reads the clock returns
  the index of the next reading.
\<close>

type_synonym clock = "nat \<Rightarrow> int"

definition newDate_now :: "clock \<Rightarrow> nat \<Rightarrow> jsdate" where
  "newDate_now clk n = Time (clk n)"

text \<open>\<^verbatim>\<open>item[key]\<close>: a missing key reads as \<^verbatim>\<open>undefined\<close>.\<close>

definition get_prop :: "row \<Rightarrow> string \<Rightarrow> jsval" where
  "get_prop item key = (case map_of item key of None \<Rightarrow> Undefined | Some v \<Rightarrow> v)"

section \<open>dateUtils: safeParseDate\<close>

definition formats :: "string list" where
  "formats =
     [''yyyy-MM-dd'', ''dd.MM.yyyy'', ''MM/dd/yyyy'', ''dd/MM/yyyy'', ''yyyy/MM/dd'',
      ''yyyy-MM-dd HH:mm:ss'', ''dd.MM.yyyy HH:mm:ss'']"

text \<open>The loop over the formats: an exception of \<^verbatim>\<open>parse\<close> is caught and the loop goes
  on. \<open>None\<close> means that no format gave a valid date.\<close>

fun tryFormats :: "lib \<Rightarrow> clock \<Rightarrow> string \<Rightarrow> string list \<Rightarrow> nat \<Rightarrow> jsdate option \<times> nat" where
  "tryFormats L clk trimmed [] n = (None, n)"
| "tryFormats L clk trimmed (format # fs) n =
     (case fns_parse L trimmed format (newDate_now clk n) of
        Inl e \<Rightarrow> tryFormats L clk trimmed fs (Suc n)
      | Inr parsed \<Rightarrow>
          if isValid parsed then (Some parsed, Suc n)
          else tryFormats L clk trimmed fs (Suc n))"

text \<open>The format loop followed by the native constructor as the last resort.\<close>

definition formatsThenNative :: "lib \<Rightarrow> clock \<Rightarrow> string \<Rightarrow> nat \<Rightarrow> jsdate option \<times> nat" where
  "formatsThenNative L clk trimmed n =
     (case tryFormats L clk trimmed formats n of
        (Some parsed, n') \<Rightarrow> (Some parsed, n')
      | (None, n') \<Rightarrow>
          (let nativeDate = Date_parse L trimmed
           in (if isValid nativeDate then Some nativeDate else None, n')))"

text \<open>An exception outside the format loop (here: of \<^verbatim>\<open>parseISO\<close>) reaches the outer
  \<^verbatim>\<open>catch\<close>, which returns \<^verbatim>\<open>null\<close>.\<close>

definition safeParseDate :: "lib \<Rightarrow> clock \<Rightarrow> jsval \<Rightarrow> nat \<Rightarrow> jsdate option \<times> nat" where
  "safeParseDate L clk dateInput n =
     (if \<not> truthy dateInput then (None, n)
      else case dateInput of
        DateObj d \<Rightarrow> (if isValid d then Some d else None, n)
      | Num x \<Rightarrow> (let date = newDate_num x in (if isValid date then Some date else None, n))
      | Str s \<Rightarrow>
          (let trimmed = trim s
           in if trimmed = [] then (None, n)
              else if includes_char trimmed CHR ''T'' \<or> includes_char trimmed CHR ''Z'' then
                (case fns_parseISO L trimmed of
                   Inl e \<Rightarrow> (None, n)
                 | Inr isoDate \<Rightarrow>
                     if isValid isoDate then (Some isoDate, n)
                     else formatsThenNative L clk trimmed n)
              else formatsThenNative L clk trimmed n)
      | _ \<Rightarrow> (None, n))"

definition isValidDate :: "jsdate \<Rightarrow> bool" where
  "isValidDate date = isValid date"

section \<open>excelUtils: parseExcelDate, processExcelData, readExcelFile\<close>

text \<open>An element of a destructured array (\<^verbatim>\<open>undefined\<close> when missing), and \<^verbatim>\<open>parseInt\<close>
  of it.\<close>

definition element :: "string list \<Rightarrow> nat \<Rightarrow> string option" where
  "element parts i = (if i < length parts then Some (parts ! i) else None)"

definition parseInt_opt :: "string option \<Rightarrow> jsnum" where
  "parseInt_opt p = (case p of None \<Rightarrow> NaN | Some s \<Rightarrow> parseInt s)"

text \<open>\<^verbatim>\<open>isNaN(date.getTime()) ? null : date\<close>.\<close>

definition nonNaN :: "jsdate \<Rightarrow> jsdate option" where
  "nonNaN date = (case getTime date of NaN \<Rightarrow> None | _ \<Rightarrow> Some date)"

definition parseExcelDate :: "lib \<Rightarrow> jsval \<Rightarrow> jsdate option" where
  "parseExcelDate L dateValue =
     (if \<not> truthy dateValue then None
      else case dateValue of
        DateObj d \<Rightarrow> nonNaN d
      | Num v \<Rightarrow>
          (let excelEpoch = newDate_ymd (Fin 1900) (Fin 0) (Fin 1);
               date = newDate_num
                 (num_add (getTime excelEpoch)
                    (num_mul (num_mul (num_mul (num_mul (num_sub v (Fin 1)) (Fin 24)) (Fin 60))
                       (Fin 60)) (Fin 1000)))
           in nonNaN date)
      | Str s \<Rightarrow>
          (let trimmed = trim s
           in if trimmed = [] then None
              else if shape ''dddd-dd-dd'' trimmed then
                nonNaN (Date_parse L (trimmed @ ''T00:00:00''))
              else if shape ''dd.dd.dddd'' trimmed then
                (let parts = split CHR ''.'' trimmed;
                     day = element parts 0; month = element parts 1; year = element parts 2
                 in nonNaN (newDate_ymd (parseInt_opt year)
                              (num_sub (parseInt_opt month) (Fin 1)) (parseInt_opt day)))
              else if shape ''dd/dd/dddd'' trimmed then
                (let parts = split CHR ''/'' trimmed;
                     month = element parts 0; day = element parts 1; year = element parts 2
                 in nonNaN (newDate_ymd (parseInt_opt year)
                              (num_sub (parseInt_opt month) (Fin 1)) (parseInt_opt day)))
              else nonNaN (Date_parse L trimmed))
      | _ \<Rightarrow> None)"

record ContractData =
  id_field :: nat
  name :: jsval
  status :: jsval
  startDate :: "isotext option"
  endDate :: "isotext option"
  restDays :: jsnum
  laufzeit :: jsnum
  abgelaufeneMonate :: jsnum

text \<open>\<^verbatim>\<open>d?.toISOString() || null\<close>.\<close>

definition isoOrNull :: "jsdate option \<Rightarrow> exn + isotext option" where
  "isoOrNull d =
     (case d of
        None \<Rightarrow> Inr None
      | Some x \<Rightarrow> (case toISOString x of Inl e \<Rightarrow> Inl e | Inr t \<Rightarrow> Inr (Some t)))"

text \<open>\<^verbatim>\<open>v || fallback\<close> on a cell value.\<close>

definition orElse :: "jsval \<Rightarrow> jsval \<Rightarrow> jsval" where
  "orElse v fallback = (if truthy v then v else fallback)"

text \<open>The duration cell as \<^verbatim>\<open>processExcelData\<close> coerces it.\<close>

definition durationMonths :: "row \<Rightarrow> jsnum" where
  "durationMonths item =
     (case get_prop item ''Laufzeit in M'' of
        Str s \<Rightarrow> orZero (parseInt s)
      | v \<Rightarrow> orZero (Number v))"

text \<open>
  The body of the callback that \<^verbatim>\<open>processExcelData\<close> maps over the rows. It reads the
  clock once for the remaining days (when there is an end date) and once for the
  elapsed months (when there is a start date); \<^verbatim>\<open>toISOString\<close> may raise.
\<close>

definition processItem :: "lib \<Rightarrow> clock \<Rightarrow> row \<Rightarrow> nat \<Rightarrow> nat \<Rightarrow> (exn + ContractData) \<times> nat" where
  "processItem L clk item index n =
     (let startD = parseExcelDate L (get_prop item ''Startdatum'');
          months = durationMonths item;
          endD = (case startD of None \<Rightarrow> None | Some d \<Rightarrow> Some (addMonths L d months));
          rest = (case endD of None \<Rightarrow> Fin 0 | Some e \<Rightarrow> differenceInDays L e (newDate_now clk n));
          n1 = (case endD of None \<Rightarrow> n | Some e \<Rightarrow> Suc n);
          elapsed = (case startD of None \<Rightarrow> Fin 0
                     | Some d \<Rightarrow> differenceInMonths L (newDate_now clk n1) d);
          n2 = (case startD of None \<Rightarrow> n1 | Some d \<Rightarrow> Suc n1)
      in case isoOrNull startD of
           Inl e \<Rightarrow> (Inl e, n2)
         | Inr s \<Rightarrow>
             (case isoOrNull endD of
                Inl e \<Rightarrow> (Inl e, n2)
              | Inr t \<Rightarrow>
                  (Inr \<lparr> id_field = index + 1,
                         name = Str (String_conv L (orElse (get_prop item ''Name'') (Str ''Unbenannt''))),
                         status = Str (String_conv L (orElse (get_prop item ''Status'') (Str ''online''))),
                         startDate = s,
                         endDate = t,
                         restDays = rest,
                         laufzeit = months,
                         abgelaufeneMonate = Math_max0 elapsed \<rparr>, n2)))"

text \<open>\<^verbatim>\<open>data.map(...)\<close>: the rows in order with their indices; an exception ends the map.\<close>

fun processItems :: "lib \<Rightarrow> clock \<Rightarrow> row list \<Rightarrow> nat \<Rightarrow> nat \<Rightarrow> (exn + ContractData list) \<times> nat" where
  "processItems L clk [] index n = (Inr [], n)"
| "processItems L clk (item # rest) index n =
     (case processItem L clk item index n of
        (Inl e, n') \<Rightarrow> (Inl e, n')
      | (Inr r, n') \<Rightarrow>
          (case processItems L clk rest (Suc index) n' of
             (Inl e, n'') \<Rightarrow> (Inl e, n'')
           | (Inr rs, n'') \<Rightarrow> (Inr (r # rs), n'')))"

definition processExcelData :: "lib \<Rightarrow> clock \<Rightarrow> row list \<Rightarrow> nat \<Rightarrow> (exn + ContractData list) \<times> nat" where
  "processExcelData L clk data n = processItems L clk data 0 n"

text \<open>
  \<^verbatim>\<open>readExcelFile\<close>: the file either cannot be read (\<open>None\<close>, the reader's \<^verbatim>\<open>onerror\<close>) or
  delivers its bytes. The promise is rejected (\<open>Inl\<close>) on a read error and on any
  exception of decoding and processing; only the first sheet is used, and a workbook
  without sheets gives no rows.
\<close>

definition readExcelFile :: "lib \<Rightarrow> clock \<Rightarrow> string option \<Rightarrow> nat \<Rightarrow> (exn + ContractData list) \<times> nat" where
  "readExcelFile L clk file n =
     (case file of
        None \<Rightarrow> (Inl (Error ''Failed to read file''), n)
      | Some bstr \<Rightarrow>
          (case XLSX_read L bstr of
             Inl e \<Rightarrow> (Inl e, n)
           | Inr workbook \<Rightarrow>
               (let jsonData = (case workbook of [] \<Rightarrow> [] | (sheetName, worksheet) # _ \<Rightarrow> worksheet)
                in processExcelData L clk jsonData n)))"

section \<open>The App components\<close>

text \<open>
  The component that imports through \<^verbatim>\<open>readExcelFile\<close> keeps, among other state that
  the import never touches, the rows, a loading flag and an error message.
  \<^verbatim>\<open>handleImportExcel\<close> runs to completion here: the state returned is the one after the
  promise has settled.
\<close>

record AppState =
  rows :: "ContractData list"
  isLoading :: bool
  error :: "string option"

definition importErrorMessage :: string where
  "importErrorMessage =
     ''Fehler beim Laden der Excel-Datei. Bitte '' @ [CHR 0xFC] @ ''berpr'' @ [CHR 0xFC]
       @ ''fen Sie das Format.''"

definition handleImportExcel ::
  "lib \<Rightarrow> clock \<Rightarrow> string option option \<Rightarrow> 'a AppState_scheme \<Rightarrow> nat \<Rightarrow> 'a AppState_scheme \<times> nat" where
  "handleImportExcel L clk files st n =
     (case files of
        None \<Rightarrow> (st, n)
      | Some file \<Rightarrow>
          (let st1 = st\<lparr>isLoading := True, error := None\<rparr>
           in case readExcelFile L clk file n of
                (Inr processedData, n') \<Rightarrow> (st1\<lparr>rows := processedData, isLoading := False\<rparr>, n')
              | (Inl err, n') \<Rightarrow> (st1\<lparr>error := Some importErrorMessage, isLoading := False\<rparr>, n')))"

text \<open>
  The other component normalizes the rows inline, with \<^verbatim>\<open>safeParseDate\<close>. The body of
  its callback, and the map over the rows (the value \<^verbatim>\<open>formatted\<close>):
\<close>

definition durationMonths_inline :: "row \<Rightarrow> jsnum" where
  "durationMonths_inline item = orZero (Number (get_prop item ''Laufzeit in M''))"

definition formattedItem :: "lib \<Rightarrow> clock \<Rightarrow> row \<Rightarrow> nat \<Rightarrow> nat \<Rightarrow> (exn + ContractData) \<times> nat" where
  "formattedItem L clk item index n =
     (let parsed = safeParseDate L clk (get_prop item ''Startdatum'') n;
          startD = fst parsed;
          n0 = snd parsed;
          months = durationMonths_inline item;
          endD = (case startD of None \<Rightarrow> None
                 | Some d \<Rightarrow> if isValidDate d then Some (addMonths L d months) else None);
          readsRest = (case endD of None \<Rightarrow> False | Some e \<Rightarrow> isValidDate e);
          rest = (case endD of None \<Rightarrow> Fin 0
                  | Some e \<Rightarrow> if isValidDate e then differenceInDays L e (newDate_now clk n0) else Fin 0);
          n1 = (if readsRest then Suc n0 else n0);
          readsElapsed = (case startD of None \<Rightarrow> False | Some d \<Rightarrow> isValidDate d);
          elapsed = (case startD of None \<Rightarrow> Fin 0
                     | Some d \<Rightarrow> if isValidDate d then differenceInMonths L (newDate_now clk n1) d else Fin 0);
          n2 = (if readsElapsed then Suc n1 else n1)
      in case isoOrNull startD of
           Inl e \<Rightarrow> (Inl e, n2)
         | Inr s \<Rightarrow>
             (case isoOrNull endD of
                Inl e \<Rightarrow> (Inl e, n2)
              | Inr t \<Rightarrow>
                  (Inr \<lparr> id_field = index + 1,
                         name = orElse (get_prop item ''Name'') (Str ''Unbenannt''),
                         status = orElse (get_prop item ''Status'') (Str ''online''),
                         startDate = s,
                         endDate = t,
                         restDays = rest,
                         laufzeit = months,
                         abgelaufeneMonate = elapsed \<rparr>, n2)))"

fun formatted :: "lib \<Rightarrow> clock \<Rightarrow> row list \<Rightarrow> nat \<Rightarrow> nat \<Rightarrow> (exn + ContractData list) \<times> nat" where
  "formatted L clk [] index n = (Inr [], n)"
| "formatted L clk (item # rest) index n =
     (case formattedItem L clk item index n of
        (Inl e, n') \<Rightarrow> (Inl e, n')
      | (Inr r, n') \<Rightarrow>
          (case formatted L clk rest (Suc index) n' of
             (Inl e, n'') \<Rightarrow> (Inl e, n'')
           | (Inr rs, n'') \<Rightarrow> (Inr (r # rs), n'')))"

text \<open>
  \<^verbatim>\<open>getStatusBadge(status, restDays)\<close>, the same in both components, returns one of four
  badges; the rendered element is abstracted to the badge it shows.
\<close>

datatype badge = Abgelaufen | Faellig | Online | Secondary jsval

definition getStatusBadge :: "jsval \<Rightarrow> jsnum \<Rightarrow> badge" where
  "getStatusBadge st rd =
     (if num_le rd (Fin 0) then Abgelaufen
      else if num_le rd (Fin 30) then Faellig
      else if st = Str ''online'' then Online
      else Secondary st)"

section \<open>A reference library\<close>

text \<open>
  One concrete library and clock, on which the definitions can be run. No general
  theorem depends on it. Its calendar functions work on the proleptic Gregorian
  calendar in UTC; its parsers accept exactly the digit counts of a layout; its month
  difference does not reproduce the date library's end-of-month adjustments; its
  decoder knows one workbook.
\<close>

text \<open>Year, month index (0..11) and day of month of a day number.\<close>

definition civil_from_days :: "int \<Rightarrow> int \<times> int \<times> int" where
  "civil_from_days z =
     (let z1 = z + 719468;
          era = z1 div 146097;
          doe = z1 mod 146097;
          yoe = (doe - doe div 1460 + doe div 36524 - doe div 146096) div 365;
          doy = doe - (365 * yoe + yoe div 4 - yoe div 100);
          mp = (5 * doy + 2) div 153;
          d = doy - (153 * mp + 2) div 5 + 1;
          m = (if mp < 10 then mp + 3 else mp - 9);
          y = yoe + era * 400 + (if m \<le> 2 then 1 else 0)
      in (y, m - 1, d))"

definition DaysInMonth :: "int \<Rightarrow> int \<Rightarrow> int" where
  "DaysInMonth y m = MakeDay y (m + 1) 1 - MakeDay y m 1"

definition ref_addMonths :: "int \<Rightarrow> jsnum \<Rightarrow> jsdate" where
  "ref_addMonths t amount =
     (case amount of
        Fin q \<Rightarrow>
          (case civil_from_days (t div msPerDay) of
             (y, m, d) \<Rightarrow>
               (let k = trunc q;
                    d' = min d (DaysInMonth y (m + k))
                in TimeClip (Fin (of_int (MakeDay y (m + k) d' * msPerDay + t mod msPerDay)))))
      | _ \<Rightarrow> Invalid)"

definition ref_differenceInDays :: "int \<Rightarrow> int \<Rightarrow> int" where
  "ref_differenceInDays a b =
     (if a < b then - ((b - a) div msPerDay) else (a - b) div msPerDay)"

definition ref_differenceInMonths :: "int \<Rightarrow> int \<Rightarrow> int" where
  "ref_differenceInMonths a b =
     (case civil_from_days (a div msPerDay) of
        (ya, ma, da) \<Rightarrow>
          (case civil_from_days (b div msPerDay) of
             (yb, mb, db) \<Rightarrow>
               (let cal = (ya - yb) * 12 + (ma - mb);
                    ra = da * msPerDay + a mod msPerDay;
                    rb = db * msPerDay + b mod msPerDay
                in if b \<le> a then (if ra < rb then cal - 1 else cal)
                   else (if rb < ra then cal + 1 else cal))))"

text \<open>
  Parsing by layout. In a layout the letters \<open>y M d H m s\<close> stand for one digit of the
  year, month, day, hour, minute and second; every other character stands for itself.
  The text must have the layout's shape, and its fields must name a real calendar day
  and time of day.
\<close>

definition isField :: "char \<Rightarrow> bool" where
  "isField c = List.member ''yMdHms'' c"

definition layoutShape :: "string \<Rightarrow> string" where
  "layoutShape layout = map (\<lambda>c. if isField c then CHR ''d'' else c) layout"

definition field :: "string \<Rightarrow> string \<Rightarrow> char \<Rightarrow> int" where
  "field layout s c = int (digitsVal 10 0 (map snd (filter (\<lambda>p. fst p = c) (zip layout s))))"

definition layoutParse :: "string \<Rightarrow> string \<Rightarrow> jsdate" where
  "layoutParse layout s =
     (if shape (layoutShape layout) s then
        (let y = field layout s CHR ''y''; mo = field layout s CHR ''M'';
             d = field layout s CHR ''d''; h = field layout s CHR ''H'';
             mi = field layout s CHR ''m''; se = field layout s CHR ''s''
         in if 1 \<le> mo \<and> mo \<le> 12 \<and> 1 \<le> d \<and> d \<le> DaysInMonth y (mo - 1)
               \<and> h < 24 \<and> mi < 60 \<and> se < 60
            then Time (MakeDay y (mo - 1) d * msPerDay + h * 3600000 + mi * 60000 + se * 1000)
            else Invalid)
      else Invalid)"

definition ref_String :: "jsval \<Rightarrow> string" where
  "ref_String v =
     (case v of
        Str s \<Rightarrow> s
      | Undefined \<Rightarrow> ''undefined''
      | Null \<Rightarrow> ''null''
      | Bool b \<Rightarrow> (if b then ''true'' else ''false'')
      | Num x \<Rightarrow> ''[number]''
      | DateObj d \<Rightarrow> ''[date]'')"

definition sampleData :: "row list" where
  "sampleData =
     [[(''Name'', Str ''Microsoft Office 365''), (''Status'', Str ''online''),
       (''Startdatum'', Str ''2024-01-01''), (''Laufzeit in M'', Num (Fin 12))],
      [(''Name'', Str ''Zoom Pro''), (''Status'', Str ''online''),
       (''Startdatum'', Str ''01.03.2024''), (''Laufzeit in M'', Num (Fin 12))]]"

definition ref_XLSX_read :: "string \<Rightarrow> exn + (string \<times> row list) list" where
  "ref_XLSX_read bstr =
     (if take 2 bstr = ''PK'' then Inr [(''Sheet1'', sampleData)]
      else Inl (Error ''File is not a spreadsheet''))"

definition refLib :: lib where
  "refLib =
     \<lparr> Date_parse = layoutParse ''yyyy-MM-ddTHH:mm:ss'',
       fns_parse = (\<lambda>s layout referenceDate. Inr (layoutParse layout s)),
       fns_parseISO = (\<lambda>s. Inr (layoutParse ''yyyy-MM-ddTHH:mm:ss'' s)),
       fns_addMonths = ref_addMonths,
       fns_differenceInDays = ref_differenceInDays,
       fns_differenceInMonths = ref_differenceInMonths,
       String_conv = ref_String,
       XLSX_read = ref_XLSX_read \<rparr>"

text \<open>Two clocks that stand still, at 2024-06-01 and at 2024-06-02 (UTC midnight).\<close>

definition clock_2024_06_01 :: clock where
  "clock_2024_06_01 = (\<lambda>n. 1717200000000)"

definition clock_2024_06_02 :: clock where
  "clock_2024_06_02 = (\<lambda>n. 1717286400000)"

section \<open>The format list as the specification words it\<close>

text \<open>
  The specification's pattern rule for a string: the layouts of \<^const>\<open>formats\<close> are
  tried in order, and the first one whose shape the string has and that gives a valid
  date wins.
\<close>

text \<open>
  The same rule over the library the code calls: the results of \<^verbatim>\<open>parse\<close> for the
  layouts in order (an exception counts as no date), the \<open>i\<close>-th one against the
  \<open>i\<close>-th clock reading.
\<close>

fun formatResults :: "lib \<Rightarrow> clock \<Rightarrow> string \<Rightarrow> string list \<Rightarrow> nat \<Rightarrow> jsdate list" where
  "formatResults L clk trimmed [] n = []"
| "formatResults L clk trimmed (layout # ls) n =
     (case fns_parse L trimmed layout (newDate_now clk n) of Inl e \<Rightarrow> Invalid | Inr d \<Rightarrow> d)
       # formatResults L clk trimmed ls (Suc n)"

definition spec_patternParse :: "string \<Rightarrow> jsdate option" where
  "spec_patternParse s = List.find isValid (map (\<lambda>layout. layoutParse layout s) formats)"

text \<open>Sample rows: a German start date, and a start date that no rule parses.\<close>

definition row_german :: row where
  "row_german =
     [(''Name'', Str ''Zoom Pro''), (''Status'', Str ''online''),
      (''Startdatum'', Str ''01.03.2024''), (''Laufzeit in M'', Num (Fin 12))]"

definition row_nodate :: row where
  "row_nodate =
     [(''Name'', Str ''Zoom Pro''), (''Startdatum'', Str ''not-a-date''),
      (''Laufzeit in M'', Num (Fin 12))]"

text \<open>More sample data: a negative duration with no start date, a start date in the
  future of the reference clocks, a component state that holds one record, and a
  duration of ten thousand million months.\<close>

definition row_minus5 :: row where
  "row_minus5 = [(''Name'', Str ''Zoom Pro''), (''Laufzeit in M'', Num (Fin (- 5)))]"

definition row_future :: row where
  "row_future =
     [(''Name'', Str ''Zoom Pro''), (''Startdatum'', Str ''01.01.2030''),
      (''Laufzeit in M'', Num (Fin 12))]"

definition state_loaded :: AppState where
  "state_loaded =
     \<lparr> rows = [\<lparr> id_field = 1, name = Str ''Zoom Pro'', status = Str ''online'',
                  startDate = Some (ISO 1709251200000), endDate = Some (ISO 1740787200000),
                  restDays = Fin 273, laufzeit = Fin 12, abgelaufeneMonate = Fin 3 \<rparr>],
       isLoading = False, error = None \<rparr>"


text \<open>
  Three more clocks. The first stands still one millisecond before 2024-06-01; the
  second gives the same first reading and 2024-06-01 from then on (midnight passes
  between two readings); the third agrees with the first on four readings.
\<close>

definition clock_month_end :: clock where
  "clock_month_end = (\<lambda>k. 1717199999999)"

definition clock_crossing :: clock where
  "clock_crossing = (\<lambda>k. if k = 0 then 1717199999999 else 1717200000000)"

definition clock_agree :: clock where
  "clock_agree = (\<lambda>k. if k < 4 then 1717199999999 else 1717200000000)"

section \<open>Properties of the date parsers\<close>

lemma nonNaN_eq: "nonNaN d = (case d of Invalid \<Rightarrow> None | Time t \<Rightarrow> Some (Time t))"
  by (cases d) (auto simp: nonNaN_def getTime_def)

lemma nonNaN_valid: "nonNaN d = Some x \<Longrightarrow> \<exists>t. x = Time t"
  by (cases d) (auto simp: nonNaN_eq)

lemma parseExcelDate_valid: "parseExcelDate L v = Some d \<Longrightarrow> \<exists>t. d = Time t"
  unfolding parseExcelDate_def Let_def
  by (auto split: if_splits jsval.splits dest: nonNaN_valid)

lemma tryFormats_valid: "tryFormats L clk s fs n = (Some d, n') \<Longrightarrow> \<exists>t. d = Time t"
  by (induction fs arbitrary: n)
    (auto split: sum.splits if_splits jsdate.splits simp: isValid_def)

lemma formatsThenNative_valid:
  "formatsThenNative L clk s n = (Some d, n') \<Longrightarrow> \<exists>t. d = Time t"
  unfolding formatsThenNative_def Let_def
  by (auto split: prod.splits option.splits if_splits jsdate.splits
      simp: isValid_def dest: tryFormats_valid)

lemma safeParseDate_valid: "safeParseDate L clk v n = (Some d, n') \<Longrightarrow> \<exists>t. d = Time t"
  unfolding safeParseDate_def Let_def
  by (auto split: if_splits jsval.splits sum.splits jsdate.splits
      simp: isValid_def dest: formatsThenNative_valid)

lemma dropWhile_all: "list_all P s \<Longrightarrow> dropWhile P s = []"
  by (induction s) auto

lemma trim_whitespace: "list_all isWhiteSpace s \<Longrightarrow> trim s = []"
  by (simp add: trim_def dropWhile_all)

lemma parseExcelDate_falsy: "\<not> truthy v \<Longrightarrow> parseExcelDate L v = None"
  by (simp add: parseExcelDate_def)

lemma safeParseDate_falsy: "\<not> truthy v \<Longrightarrow> safeParseDate L clk v n = (None, n)"
  by (simp add: safeParseDate_def)

lemma parseExcelDate_blank: "list_all isWhiteSpace s \<Longrightarrow> parseExcelDate L (Str s) = None"
  by (simp add: parseExcelDate_def trim_whitespace)

lemma safeParseDate_blank:
  "list_all isWhiteSpace s \<Longrightarrow> safeParseDate L clk (Str s) n = (None, n)"
  by (simp add: safeParseDate_def trim_whitespace)

lemma safeParseDate_parseISO_raises:
  assumes "trim s \<noteq> []"
    and "includes_char (trim s) CHR ''T'' \<or> includes_char (trim s) CHR ''Z''"
    and "fns_parseISO L (trim s) = Inl e"
  shows "safeParseDate L clk (Str s) n = (None, n)"
proof -
  from assms(1) have "s \<noteq> []" by (auto simp: trim_def)
  with assms show ?thesis by (simp add: safeParseDate_def)
qed

text \<open>
  C5. Both date parsers are total and never raise: for every cell value, and whatever
  the library does (its exceptions are values of the model, and the parsers catch
  them), the result is \<^verbatim>\<open>null\<close> or a valid date. An absent input (\<^verbatim>\<open>undefined\<close>,
  \<^verbatim>\<open>null\<close>), the empty string and every string of white space only give \<^verbatim>\<open>null\<close>; so
  does an ISO-like string on which \<^verbatim>\<open>parseISO\<close> raises.
\<close>

theorem date_parsers_total:
  "(parseExcelDate L v = None \<or> (\<exists>t. parseExcelDate L v = Some (Time t))) \<and>
   (fst (safeParseDate L clk v n) = None \<or> (\<exists>t. fst (safeParseDate L clk v n) = Some (Time t))) \<and>
   parseExcelDate L Undefined = None \<and> fst (safeParseDate L clk Undefined n) = None \<and>
   parseExcelDate L Null = None \<and> fst (safeParseDate L clk Null n) = None \<and>
   parseExcelDate L (Str []) = None \<and> fst (safeParseDate L clk (Str []) n) = None \<and>
   (list_all isWhiteSpace s \<longrightarrow>
      parseExcelDate L (Str s) = None \<and> fst (safeParseDate L clk (Str s) n) = None) \<and>
   (trim s \<noteq> [] \<and> includes_char (trim s) CHR ''T'' \<and> fns_parseISO L (trim s) = Inl e \<longrightarrow>
      fst (safeParseDate L clk (Str s) n) = None)"
proof -
  have a: "parseExcelDate L v = None \<or> (\<exists>t. parseExcelDate L v = Some (Time t))"
    using parseExcelDate_valid [of L v] by (cases "parseExcelDate L v") auto
  have b: "fst (safeParseDate L clk v n) = None
      \<or> (\<exists>t. fst (safeParseDate L clk v n) = Some (Time t))"
    proof (cases "safeParseDate L clk v n")
    case (Pair a m)
    show ?thesis
    proof (cases a)
      case None
      with Pair show ?thesis by simp
    next
      case (Some d)
      with Pair safeParseDate_valid [of L clk v n d m] show ?thesis by auto
    qed
  qed
  show ?thesis
    using a b
    by (simp add: parseExcelDate_falsy safeParseDate_falsy parseExcelDate_blank
        safeParseDate_blank safeParseDate_parseISO_raises)
qed

theorem date_parsers_total_witness:
  "list_all isWhiteSpace [CHR 0x20, CHR 0x09, CHR 0x20] \<and>
   parseExcelDate refLib (Str [CHR 0x20, CHR 0x09, CHR 0x20]) = None \<and>
   fst (safeParseDate refLib clock_2024_06_01 (Str [CHR 0x20, CHR 0x09, CHR 0x20]) 0) = None \<and>
   parseExcelDate refLib (Str ''01.03.2024'') = Some (Time 1709251200000) \<and>
   fst (safeParseDate refLib clock_2024_06_01 (Str ''01.03.2024'') 0) = Some (Time 1709251200000) \<and>
   trim ''2024-03-01T'' \<noteq> [] \<and> includes_char (trim ''2024-03-01T'') CHR ''T'' \<and>
   fst (safeParseDate (refLib\<lparr>fns_parseISO := \<lambda>s. Inl (Error ''bad'')\<rparr>) clock_2024_06_01
          (Str ''2024-03-01T'') 0) = None"
proof -
  have h: "list_all isWhiteSpace [CHR 0x20, CHR 0x09, CHR 0x20]"
    by (simp add: isWhiteSpace_def)
  have p: "parseExcelDate refLib (Str ''01.03.2024'') = Some (Time 1709251200000)"
    by code_simp
  have q: "fst (safeParseDate refLib clock_2024_06_01 (Str ''01.03.2024'') 0)
      = Some (Time 1709251200000)"
    by code_simp
  have t: "trim ''2024-03-01T'' \<noteq> [] \<and> includes_char (trim ''2024-03-01T'') CHR ''T''"
    by code_simp
  show ?thesis
    using h p q t
      date_parsers_total [of refLib "Str ''01.03.2024''" clock_2024_06_01 0
        "[CHR 0x20, CHR 0x09, CHR 0x20]"]
      date_parsers_total [of "refLib\<lparr>fns_parseISO := \<lambda>s. Inl (Error ''bad'')\<rparr>" Null
        clock_2024_06_01 0 "''2024-03-01T''" "Error ''bad''"]
    by simp
qed

text \<open>
  C10. Both parsers treat every falsy input as absent: the number 0 and the boolean
  \<^verbatim>\<open>false\<close> give \<^verbatim>\<open>null\<close> (the serial 0 is never decoded as a date), and so does every
  other falsy value.
\<close>

theorem falsy_cells_fail:
  "parseExcelDate L (Num (Fin 0)) = None \<and> parseExcelDate L (Bool False) = None \<and>
   fst (safeParseDate L clk (Num (Fin 0)) n) = None \<and>
   fst (safeParseDate L clk (Bool False) n) = None \<and>
   (\<not> truthy v \<longrightarrow> parseExcelDate L v = None \<and> safeParseDate L clk v n = (None, n))"
  by (simp add: parseExcelDate_falsy safeParseDate_falsy)

theorem falsy_cells_fail_witness:
  "\<not> truthy (Num NaN) \<and> parseExcelDate refLib (Num NaN) = None \<and>
   safeParseDate refLib clock_2024_06_01 (Num NaN) 0 = (None, 0)"
  using falsy_cells_fail [of refLib clock_2024_06_01 0 "Num NaN"] by simp

section \<open>Properties of the classification\<close>

text \<open>
  C7. The classification assigns exactly one class and the expired check comes first:
  the badge is \<open>Abgelaufen\<close> exactly when \<open>restDays \<le> 0\<close>, whatever the status, also
  for the status "online"; \<open>Faellig\<close> exactly when \<open>0 < restDays \<le> 30\<close>; \<open>Online\<close>
  exactly when the first two tests fail and the status is "online"; the pass-through
  badge exactly when they fail and the status is something else. The tests are the
  language's comparisons, which are false on \<^verbatim>\<open>NaN\<close>; the remaining days of a record
  are never \<^verbatim>\<open>NaN\<close>.
\<close>

theorem getStatusBadge_precedence:
  "(getStatusBadge st rd = Abgelaufen \<longleftrightarrow> num_le rd (Fin 0)) \<and>
   (getStatusBadge st rd = Faellig \<longleftrightarrow> \<not> num_le rd (Fin 0) \<and> num_le rd (Fin 30)) \<and>
   (getStatusBadge st rd = Online \<longleftrightarrow>
      \<not> num_le rd (Fin 0) \<and> \<not> num_le rd (Fin 30) \<and> st = Str ''online'') \<and>
   (getStatusBadge st rd = Secondary st \<longleftrightarrow>
      \<not> num_le rd (Fin 0) \<and> \<not> num_le rd (Fin 30) \<and> st \<noteq> Str ''online'') \<and>
   (getStatusBadge (Str ''online'') (Fin d) = Abgelaufen \<longleftrightarrow> d \<le> 0) \<and>
   (getStatusBadge st (Fin d) = Faellig \<longleftrightarrow> 0 < d \<and> d \<le> 30) \<and>
   (getStatusBadge (Str ''online'') (Fin d) = Online \<longleftrightarrow> 30 < d)"
  by (auto simp: getStatusBadge_def)

section \<open>Properties of the normalizers\<close>

lemma processItem_absent:
  assumes "parseExcelDate L (get_prop item ''Startdatum'') = None"
  shows "processItem L clk item index n =
     (Inr \<lparr> id_field = index + 1,
            name = Str (String_conv L (orElse (get_prop item ''Name'') (Str ''Unbenannt''))),
            status = Str (String_conv L (orElse (get_prop item ''Status'') (Str ''online''))),
            startDate = None, endDate = None, restDays = Fin 0,
            laufzeit = durationMonths item, abgelaufeneMonate = Fin 0 \<rparr>, n)"
  using assms by (simp add: processItem_def isoOrNull_def)

lemma processItem_present:
  assumes "parseExcelDate L (get_prop item ''Startdatum'') = Some (Time t)"
    and "fns_addMonths L t (durationMonths item) = Time u"
  shows "processItem L clk item index n =
     (Inr \<lparr> id_field = index + 1,
            name = Str (String_conv L (orElse (get_prop item ''Name'') (Str ''Unbenannt''))),
            status = Str (String_conv L (orElse (get_prop item ''Status'') (Str ''online''))),
            startDate = Some (ISO t), endDate = Some (ISO u),
            restDays = Fin (of_int (fns_differenceInDays L u (clk n))),
            laufzeit = durationMonths item,
            abgelaufeneMonate = Fin (max 0 (of_int (fns_differenceInMonths L (clk (Suc n)) t))) \<rparr>,
      Suc (Suc n))"
  using assms
  by (simp add: processItem_def isoOrNull_def toISOString_def addMonths_def
      differenceInDays_def differenceInMonths_def newDate_now_def)

lemma processItem_raises:
  assumes "parseExcelDate L (get_prop item ''Startdatum'') = Some (Time t)"
    and "fns_addMonths L t (durationMonths item) = Invalid"
  shows "processItem L clk item index n = (Inl RangeError, Suc (Suc n))"
  using assms
  by (simp add: processItem_def isoOrNull_def toISOString_def addMonths_def)

lemma processItem_cases:
  obtains (absent) "parseExcelDate L (get_prop item ''Startdatum'') = None"
  | (present) t u where "parseExcelDate L (get_prop item ''Startdatum'') = Some (Time t)"
       "fns_addMonths L t (durationMonths item) = Time u"
  | (raises) t where "parseExcelDate L (get_prop item ''Startdatum'') = Some (Time t)"
       "fns_addMonths L t (durationMonths item) = Invalid"
proof (cases "parseExcelDate L (get_prop item ''Startdatum'')")
  case None then show ?thesis by (rule absent)
next
  case (Some d)
  then obtain t where d: "d = Time t" using parseExcelDate_valid by blast
  show ?thesis
  proof (cases "fns_addMonths L t (durationMonths item)")
    case Invalid with Some d show ?thesis by (auto intro: raises)
  next
    case (Time u) with Some d show ?thesis by (auto intro: present)
  qed
qed

lemma formattedItem_absent:
  assumes "safeParseDate L clk (get_prop item ''Startdatum'') n = (None, n0)"
  shows "formattedItem L clk item index n =
     (Inr \<lparr> id_field = index + 1,
            name = orElse (get_prop item ''Name'') (Str ''Unbenannt''),
            status = orElse (get_prop item ''Status'') (Str ''online''),
            startDate = None, endDate = None, restDays = Fin 0,
            laufzeit = durationMonths_inline item, abgelaufeneMonate = Fin 0 \<rparr>, n0)"
  using assms by (simp add: formattedItem_def isoOrNull_def)

lemma formattedItem_present:
  assumes "safeParseDate L clk (get_prop item ''Startdatum'') n = (Some (Time t), n0)"
    and "fns_addMonths L t (durationMonths_inline item) = Time u"
  shows "formattedItem L clk item index n =
     (Inr \<lparr> id_field = index + 1,
            name = orElse (get_prop item ''Name'') (Str ''Unbenannt''),
            status = orElse (get_prop item ''Status'') (Str ''online''),
            startDate = Some (ISO t), endDate = Some (ISO u),
            restDays = Fin (of_int (fns_differenceInDays L u (clk n0))),
            laufzeit = durationMonths_inline item,
            abgelaufeneMonate = Fin (of_int (fns_differenceInMonths L (clk (Suc n0)) t)) \<rparr>,
      Suc (Suc n0))"
  using assms
  by (simp add: formattedItem_def isoOrNull_def toISOString_def addMonths_def
      differenceInDays_def differenceInMonths_def newDate_now_def isValidDate_def isValid_def)

lemma formattedItem_raises:
  assumes "safeParseDate L clk (get_prop item ''Startdatum'') n = (Some (Time t), n0)"
    and "fns_addMonths L t (durationMonths_inline item) = Invalid"
  shows "formattedItem L clk item index n = (Inl RangeError, Suc n0)"
  using assms
  by (simp add: formattedItem_def isoOrNull_def toISOString_def addMonths_def
      differenceInDays_def differenceInMonths_def newDate_now_def isValidDate_def isValid_def)

lemma formattedItem_cases:
  obtains (absent) n0 where "safeParseDate L clk (get_prop item ''Startdatum'') n = (None, n0)"
  | (present) t u n0 where "safeParseDate L clk (get_prop item ''Startdatum'') n = (Some (Time t), n0)"
       "fns_addMonths L t (durationMonths_inline item) = Time u"
  | (raises) t n0 where "safeParseDate L clk (get_prop item ''Startdatum'') n = (Some (Time t), n0)"
       "fns_addMonths L t (durationMonths_inline item) = Invalid"
proof (cases "safeParseDate L clk (get_prop item ''Startdatum'') n")
  case (Pair a n0)
  show ?thesis
  proof (cases a)
    case None with Pair show ?thesis by (auto intro: absent)
  next
    case (Some d)
    with Pair obtain t where d: "d = Time t" using safeParseDate_valid by blast
    show ?thesis
    proof (cases "fns_addMonths L t (durationMonths_inline item)")
      case Invalid with Pair Some d show ?thesis by (auto intro: raises)
    next
      case (Time u) with Pair Some d show ?thesis by (auto intro: present)
    qed
  qed
qed










lemma laufzeit_processItem:
  "fst (processItem L clk item index n) = Inr r \<Longrightarrow> laufzeit r = durationMonths item"
  by (cases rule: processItem_cases [of L item])
     (auto simp: processItem_absent processItem_present processItem_raises)

lemma laufzeit_formattedItem:
  "fst (formattedItem L clk item index n) = Inr r \<Longrightarrow> laufzeit r = durationMonths_inline item"
  by (cases rule: formattedItem_cases [of L clk item n])
     (auto simp: formattedItem_absent formattedItem_present formattedItem_raises)

lemma row_minus5_records:
  "(\<exists>r. fst (processItem L clk row_minus5 index n) = Inr r \<and> laufzeit r = Fin (- 5)) \<and>
   (\<exists>r. fst (formattedItem L clk row_minus5 index n) = Inr r \<and> laufzeit r = Fin (- 5))"
proof (intro conjI)
  have u: "get_prop row_minus5 ''Startdatum'' = Undefined"
    by (simp add: get_prop_def row_minus5_def)
  have d: "durationMonths row_minus5 = Fin (- 5)" "durationMonths_inline row_minus5 = Fin (- 5)"
    by (simp_all add: durationMonths_def durationMonths_inline_def get_prop_def row_minus5_def orZero_def)
  show "\<exists>r. fst (processItem L clk row_minus5 index n) = Inr r \<and> laufzeit r = Fin (- 5)"
    using d by (simp add: processItem_absent u parseExcelDate_falsy)
  show "\<exists>r. fst (formattedItem L clk row_minus5 index n) = Inr r \<and> laufzeit r = Fin (- 5)"
    using d by (simp add: formattedItem_absent [where ?n0.0 = n] u safeParseDate_falsy)
qed

text \<open>
  C3 as stated fails: the duration is not clamped. For a row whose duration cell is the
  number -5 (and which has no start date), both normalizers build a record whose
  \<open>laufzeit\<close> is -5. (By \<open>row_minus5_records\<close> this is so for every library, clock and
  row index.)
\<close>

theorem durationMonths_negative_counterexample:
  "fst (processItem refLib clock_2024_06_01 row_minus5 0 0) =
     Inr \<lparr> id_field = 1, name = Str ''Zoom Pro'', status = Str ''online'',
           startDate = None, endDate = None, restDays = Fin 0,
           laufzeit = Fin (- 5), abgelaufeneMonate = Fin 0 \<rparr> \<and>
   fst (formattedItem refLib clock_2024_06_01 row_minus5 0 0) =
     Inr \<lparr> id_field = 1, name = Str ''Zoom Pro'', status = Str ''online'',
           startDate = None, endDate = None, restDays = Fin 0,
           laufzeit = Fin (- 5), abgelaufeneMonate = Fin 0 \<rparr> \<and>
   Fin (- 5) \<noteq> Fin 0"
  by code_simp

text \<open>
  C3, amended. The record's duration is the coerced cell: 0 when the cell is absent or
  is a string that coerces to \<^verbatim>\<open>NaN\<close> (\<^verbatim>\<open>parseInt\<close> in \<^verbatim>\<open>processExcelData\<close>, \<^verbatim>\<open>Number\<close>
  in the inline normalizer), and the number itself when the cell is a finite number:
  negative and fractional numbers are kept, nothing is clamped or rounded.
\<close>

theorem durationMonths_unclamped:
  "(fst (processItem L clk item index n) = Inr r \<longrightarrow> laufzeit r = durationMonths item) \<and>
   (fst (formattedItem L clk item index n) = Inr r' \<longrightarrow> laufzeit r' = durationMonths_inline item) \<and>
   (get_prop item ''Laufzeit in M'' = Undefined \<longrightarrow>
      durationMonths item = Fin 0 \<and> durationMonths_inline item = Fin 0) \<and>
   (get_prop item ''Laufzeit in M'' = Str s \<and> parseInt s = NaN \<longrightarrow> durationMonths item = Fin 0) \<and>
   (get_prop item ''Laufzeit in M'' = Str s \<and> StringToNumber s = NaN \<longrightarrow>
      durationMonths_inline item = Fin 0) \<and>
   (get_prop item ''Laufzeit in M'' = Num (Fin q) \<longrightarrow>
      durationMonths item = Fin q \<and> durationMonths_inline item = Fin q)"
  by (auto simp: laufzeit_processItem laufzeit_formattedItem durationMonths_def
      durationMonths_inline_def orZero_def)

theorem durationMonths_unclamped_witness:
  "(\<exists>r. fst (processItem refLib clock_2024_06_01 row_minus5 0 0) = Inr r \<and> laufzeit r = Fin (- 5)) \<and>
   (\<exists>r. fst (formattedItem refLib clock_2024_06_01 row_minus5 0 0) = Inr r \<and> laufzeit r = Fin (- 5)) \<and>
   get_prop row_nodate ''Startdatum'' = Str ''not-a-date'' \<and> parseInt ''not-a-date'' = NaN \<and>
   StringToNumber ''not-a-date'' = NaN \<and>
   durationMonths [(''Laufzeit in M'', Str ''not-a-date'')] = Fin 0 \<and>
   durationMonths_inline [(''Laufzeit in M'', Str ''not-a-date'')] = Fin 0 \<and>
   durationMonths [] = Fin 0 \<and> durationMonths_inline [] = Fin 0"
proof -
  have g: "get_prop row_minus5 ''Laufzeit in M'' = Num (Fin (- 5))"
    by (simp add: get_prop_def row_minus5_def)
  obtain r where r: "fst (processItem refLib clock_2024_06_01 row_minus5 0 0) = Inr r"
    using row_minus5_records by blast
  obtain r' where r': "fst (formattedItem refLib clock_2024_06_01 row_minus5 0 0) = Inr r'"
    using row_minus5_records by blast
  note m = durationMonths_unclamped [of refLib clock_2024_06_01 row_minus5 0 0 r r' "[]" "- 5"]
  have a: "laufzeit r = Fin (- 5)" "laufzeit r' = Fin (- 5)"
    using m r r' g by simp_all
  have s1: "get_prop [(''Laufzeit in M'', Str ''not-a-date'')] ''Laufzeit in M'' = Str ''not-a-date''"
    by (simp add: get_prop_def)
  have s2: "parseInt ''not-a-date'' = NaN" by code_simp
  have s3: "StringToNumber ''not-a-date'' = NaN" by code_simp
  have s4: "get_prop row_nodate ''Startdatum'' = Str ''not-a-date''" by code_simp
  have e: "get_prop [] ''Laufzeit in M'' = Undefined" by (simp add: get_prop_def)
  show ?thesis
    using a r r' s1 s2 s3 s4 e
      durationMonths_unclamped [of refLib clock_2024_06_01 "[(''Laufzeit in M'', Str ''not-a-date'')]"
         0 0 _ _ "''not-a-date''" 0]
      durationMonths_unclamped [of refLib clock_2024_06_01 "[]" 0 0 _ _ "[]" 0]
    by auto
qed

lemma processItem_elapsed_clamped:
  assumes "fst (processItem L clk item index n) = Inr r"
  shows "\<exists>q. abgelaufeneMonate r = Fin q \<and> 0 \<le> q"
  using assms
  by (cases rule: processItem_cases [of L item])
     (auto simp: processItem_absent processItem_present processItem_raises)

lemma formattedItem_elapsed_unclamped:
  assumes "safeParseDate L clk (get_prop item ''Startdatum'') n = (Some (Time t), n0)"
    and "fst (formattedItem L clk item index n) = Inr r"
  shows "abgelaufeneMonate r = Fin (of_int (fns_differenceInMonths L (clk (Suc n0)) t))"
  using assms
  by (cases "fns_addMonths L t (durationMonths_inline item)")
     (auto simp: formattedItem_present formattedItem_raises)

text \<open>
  C4. \<^verbatim>\<open>processExcelData\<close> clamps the elapsed months with \<^verbatim>\<open>Math.max(0, ...)\<close>
  (\<open>processItem_elapsed_clamped\<close>); the inline normalizer of \<^verbatim>\<open>handleImportExcel\<close> stores
  the library's difference as it is (\<open>formattedItem_elapsed_unclamped\<close>). For a start
  date of 2030-01-01 and a clock at 2024-06-01 the inline normalizer stores -67 where
  \<^verbatim>\<open>processExcelData\<close> stores 0.
\<close>

theorem elapsedMonths_inline_negative:
  "fst (formattedItem refLib clock_2024_06_01 row_future 0 0) =
     Inr \<lparr> id_field = 1, name = Str ''Zoom Pro'', status = Str ''online'',
           startDate = Some (ISO 1893456000000), endDate = Some (ISO 1924992000000),
           restDays = Fin 2405, laufzeit = Fin 12, abgelaufeneMonate = Fin (- 67) \<rparr> \<and>
   fst (processItem refLib clock_2024_06_01 row_future 0 0) =
     Inr \<lparr> id_field = 1, name = Str ''Zoom Pro'', status = Str ''online'',
           startDate = Some (ISO 1893456000000), endDate = Some (ISO 1924992000000),
           restDays = Fin 2405, laufzeit = Fin 12, abgelaufeneMonate = Fin 0 \<rparr>"
  by code_simp

text \<open>The remaining days of a record are a number, never \<^verbatim>\<open>NaN\<close> or infinite.\<close>

lemma processItem_restDays_finite:
  assumes "fst (processItem L clk item index n) = Inr r"
  shows "\<exists>q. restDays r = Fin q"
  using assms
  by (cases rule: processItem_cases [of L item])
     (auto simp: processItem_absent processItem_present processItem_raises)

lemma formattedItem_restDays_finite:
  assumes "fst (formattedItem L clk item index n) = Inr r"
  shows "\<exists>q. restDays r = Fin q"
  using assms
  by (cases rule: formattedItem_cases [of L clk item n])
     (auto simp: formattedItem_absent formattedItem_present formattedItem_raises)

section \<open>Properties of the import\<close>

lemma readExcelFile_decode_failure:
  "XLSX_read L bstr = Inl e \<Longrightarrow> readExcelFile L clk (Some bstr) n = (Inl e, n)"
  by (simp add: readExcelFile_def)

lemma handleImportExcel_failure:
  assumes "fst (readExcelFile L clk file n) = Inl e"
  shows "fst (handleImportExcel L clk (Some file) st n)
           = st\<lparr>isLoading := False, error := Some importErrorMessage\<rparr>"
  using assms
  by (cases "readExcelFile L clk file n") (simp add: handleImportExcel_def)

text \<open>
  C6. When the payload cannot be decoded, \<^verbatim>\<open>readExcelFile\<close> rejects with the decoder's
  error, and \<^verbatim>\<open>handleImportExcel\<close> ends in the state it started from except that the
  error message is set and the loading flag is off: the rows are the previous rows.
  The same holds for every other failure of \<^verbatim>\<open>readExcelFile\<close>.
\<close>

theorem failed_import_keeps_rows:
  "(XLSX_read L bstr = Inl e \<longrightarrow>
      fst (readExcelFile L clk (Some bstr) n) = Inl e \<and>
      fst (handleImportExcel L clk (Some (Some bstr)) st n)
        = st\<lparr>isLoading := False, error := Some importErrorMessage\<rparr> \<and>
      rows (fst (handleImportExcel L clk (Some (Some bstr)) st n)) = rows st \<and>
      error (fst (handleImportExcel L clk (Some (Some bstr)) st n)) \<noteq> None) \<and>
   (fst (readExcelFile L clk file n) = Inl e' \<longrightarrow>
      rows (fst (handleImportExcel L clk (Some file) st n)) = rows st \<and>
      error (fst (handleImportExcel L clk (Some file) st n)) = Some importErrorMessage)"
  by (auto simp: readExcelFile_decode_failure handleImportExcel_failure)

theorem failed_import_keeps_rows_witness:
  "XLSX_read refLib ''not a spreadsheet'' = Inl (Error ''File is not a spreadsheet'') \<and>
   rows state_loaded \<noteq> [] \<and>
   rows (fst (handleImportExcel refLib clock_2024_06_01 (Some (Some ''not a spreadsheet'')) state_loaded 0))
     = rows state_loaded \<and>
   error (fst (handleImportExcel refLib clock_2024_06_01 (Some (Some ''not a spreadsheet'')) state_loaded 0))
     = Some importErrorMessage"
proof -
  have h: "XLSX_read refLib ''not a spreadsheet'' = Inl (Error ''File is not a spreadsheet'')"
    by code_simp
  have r: "rows state_loaded \<noteq> []" by (simp add: state_loaded_def)
  show ?thesis
    using h r failed_import_keeps_rows [of refLib "''not a spreadsheet''"
        "Error ''File is not a spreadsheet''" clock_2024_06_01 0 state_loaded
        "Some ''not a spreadsheet''" "Error ''File is not a spreadsheet''"]
    by (simp add: handleImportExcel_failure)
qed

lemma processItem_clock:
  assumes "clk1 n = clk2 n" and "clk1 (Suc n) = clk2 (Suc n)"
  shows "processItem L clk1 item index n = processItem L clk2 item index n"
  using assms
  by (cases rule: processItem_cases [of L item])
     (simp_all add: processItem_absent processItem_present processItem_raises)

lemma processItem_ticks: "n \<le> snd (processItem L clk item index n)"
  by (cases rule: processItem_cases [of L item])
     (simp_all add: processItem_absent processItem_present processItem_raises)

lemma processItem_reads:
  "snd (processItem L clk item index n) =
     (case parseExcelDate L (get_prop item ''Startdatum'') of None \<Rightarrow> n | Some d \<Rightarrow> n + 2)"
  by (cases rule: processItem_cases [of L item])
     (simp_all add: processItem_absent processItem_present processItem_raises)

lemma processItem_no_read:
  assumes "parseExcelDate L (get_prop item ''Startdatum'') = None"
  shows "fst (processItem L clk item index n) = fst (processItem L clk' item index n')"
  using assms by (simp add: processItem_absent)

lemma processItem_two_reads:
  assumes "clk n = clk' n'" and "clk (Suc n) = clk' (Suc n')"
  shows "fst (processItem L clk item index n) = fst (processItem L clk' item index n')"
  using assms
  by (cases rule: processItem_cases [of L item])
     (simp_all add: processItem_absent processItem_present processItem_raises)

lemma processItem_fields:
  assumes "fst (processItem L clk item index n) = Inr r"
    and "startDate r = Some (ISO t)" and "endDate r = Some (ISO u)"
  shows "restDays r = Fin (of_int (fns_differenceInDays L u (clk n))) \<and>
         abgelaufeneMonate r = Fin (max 0 (of_int (fns_differenceInMonths L (clk (Suc n)) t)))"
  using assms
  by (cases rule: processItem_cases [of L item])
     (auto simp: processItem_absent processItem_present processItem_raises)

lemma processItems_reads: "snd (processItems L clk data index n) \<le> n + 2 * length data"
proof (induction data arbitrary: index n)
  case Nil
  show ?case by simp
next
  case (Cons item rest)
  obtain x n' where p: "processItem L clk item index n = (x, n')"
    by (cases "processItem L clk item index n")
  have le: "n' \<le> n + 2"
    using processItem_reads [of L clk item index n] p by (auto split: option.splits)
  show ?case
  proof (cases x)
    case (Inl e)
    with p le show ?thesis by simp
  next
    case (Inr r)
    obtain y n'' where q: "processItems L clk rest (Suc index) n' = (y, n'')"
      by (cases "processItems L clk rest (Suc index) n'")
    have "n'' \<le> n' + 2 * length rest"
      using Cons.IH [of "Suc index" n'] q by simp
    with p q Inr le show ?thesis by (cases y) auto
  qed
qed

lemma processItems_clock_range:
  assumes "\<forall>k. n \<le> k \<and> k < n + 2 * length data \<longrightarrow> clk1 k = clk2 k"
  shows "processItems L clk1 data index n = processItems L clk2 data index n"
  using assms
proof (induction data arbitrary: index n)
  case Nil
  show ?case by simp
next
  case (Cons item rest)
  have e0: "clk1 n = clk2 n" "clk1 (Suc n) = clk2 (Suc n)"
    using Cons.prems by auto
  have eq: "processItem L clk1 item index n = processItem L clk2 item index n"
    using e0 by (rule processItem_clock)
  obtain x n' where p: "processItem L clk2 item index n = (x, n')"
    by (cases "processItem L clk2 item index n")
  have "n \<le> n'" using processItem_ticks [of n L clk2 item index] p by simp
  moreover have "n' \<le> n + 2"
    using processItem_reads [of L clk2 item index n] p by (auto split: option.splits)
  ultimately have "\<forall>k. n' \<le> k \<and> k < n' + 2 * length rest \<longrightarrow> clk1 k = clk2 k"
    using Cons.prems by auto
  from Cons.IH [OF this]
  have "processItems L clk1 rest (Suc index) n' = processItems L clk2 rest (Suc index) n'" .
  with eq p show ?case by (auto split: sum.splits)
qed

text \<open>
  C9 as stated fails: \<^verbatim>\<open>processExcelData\<close> is given no reference instant, it reads the
  ambient clock, and more than once for a row. Two invocations on the same row at the
  same index that start at the same instant (the same first reading) give different
  records when the second readings differ: here the elapsed months are 2 and 3.
\<close>

theorem second_clock_reading_counterexample:
  "clock_month_end 0 = clock_crossing 0 \<and>
   fst (processItem refLib clock_month_end row_german 0 0) =
     Inr \<lparr> id_field = 1, name = Str ''Zoom Pro'', status = Str ''online'',
           startDate = Some (ISO 1709251200000), endDate = Some (ISO 1740787200000),
           restDays = Fin 273, laufzeit = Fin 12, abgelaufeneMonate = Fin 2 \<rparr> \<and>
   fst (processItem refLib clock_crossing row_german 0 0) =
     Inr \<lparr> id_field = 1, name = Str ''Zoom Pro'', status = Str ''online'',
           startDate = Some (ISO 1709251200000), endDate = Some (ISO 1740787200000),
           restDays = Fin 273, laufzeit = Fin 12, abgelaufeneMonate = Fin 3 \<rparr> \<and>
   fst (processExcelData refLib clock_month_end [row_german] 0)
     \<noteq> fst (processExcelData refLib clock_crossing [row_german] 0)"
  by code_simp

text \<open>
  C9, amended. \<^verbatim>\<open>processExcelData\<close> takes the rows only and reads the ambient clock: not
  at all for a row whose start cell does not parse, and exactly twice for a row whose
  start cell parses, the first reading for the remaining days and the second for the
  elapsed months. A row's result is determined by the row, its index and these two
  readings; the records of a whole import are determined by the rows and at most two
  readings per row.
\<close>

theorem processExcelData_clock_reads:
  "snd (processItem L clk item index n) =
     (case parseExcelDate L (get_prop item ''Startdatum'') of None \<Rightarrow> n | Some d \<Rightarrow> n + 2) \<and>
   (parseExcelDate L (get_prop item ''Startdatum'') = None \<longrightarrow>
      fst (processItem L clk item index n) = fst (processItem L clk' item index n')) \<and>
   (clk n = clk' n' \<and> clk (Suc n) = clk' (Suc n') \<longrightarrow>
      fst (processItem L clk item index n) = fst (processItem L clk' item index n')) \<and>
   (fst (processItem L clk item index n) = Inr r \<and> startDate r = Some (ISO t)
      \<and> endDate r = Some (ISO u) \<longrightarrow>
      restDays r = Fin (of_int (fns_differenceInDays L u (clk n))) \<and>
      abgelaufeneMonate r = Fin (max 0 (of_int (fns_differenceInMonths L (clk (Suc n)) t)))) \<and>
   snd (processExcelData L clk data n) \<le> n + 2 * length data \<and>
   ((\<forall>k. n \<le> k \<and> k < n + 2 * length data \<longrightarrow> clk k = clk2 k) \<longrightarrow>
      processExcelData L clk data n = processExcelData L clk2 data n)"
proof -
  have c2: "parseExcelDate L (get_prop item ''Startdatum'') = None \<longrightarrow>
      fst (processItem L clk item index n) = fst (processItem L clk' item index n')"
    using processItem_no_read [of L item clk index n clk' n'] by simp
  have c3: "clk n = clk' n' \<and> clk (Suc n) = clk' (Suc n') \<longrightarrow>
      fst (processItem L clk item index n) = fst (processItem L clk' item index n')"
    using processItem_two_reads [of clk n clk' n' L item index] by simp
  have c4: "fst (processItem L clk item index n) = Inr r \<and> startDate r = Some (ISO t)
      \<and> endDate r = Some (ISO u) \<longrightarrow>
      restDays r = Fin (of_int (fns_differenceInDays L u (clk n))) \<and>
      abgelaufeneMonate r = Fin (max 0 (of_int (fns_differenceInMonths L (clk (Suc n)) t)))"
    using processItem_fields [of L clk item index n r t u] by simp
  have c5: "snd (processExcelData L clk data n) \<le> n + 2 * length data"
    using processItems_reads [of L clk data 0 n] by (simp add: processExcelData_def)
  have c6: "(\<forall>k. n \<le> k \<and> k < n + 2 * length data \<longrightarrow> clk k = clk2 k) \<longrightarrow>
      processExcelData L clk data n = processExcelData L clk2 data n"
    using processItems_clock_range [of n data clk clk2 L 0] by (simp add: processExcelData_def)
  show ?thesis
    by (intro conjI) (rule processItem_reads c2 c3 c4 c5 c6)+
qed

theorem processExcelData_clock_reads_witness:
  "parseExcelDate refLib (get_prop row_nodate ''Startdatum'') = None \<and>
   fst (processItem refLib clock_month_end row_nodate 0 0)
     = fst (processItem refLib clock_crossing row_nodate 0 7) \<and>
   snd (processItem refLib clock_month_end row_german 0 0) = 2 \<and>
   clock_month_end 0 = clock_agree 0 \<and> clock_month_end 1 = clock_agree 1 \<and>
   clock_month_end 4 \<noteq> clock_agree 4 \<and>
   fst (processItem refLib clock_month_end row_german 0 0)
     = fst (processItem refLib clock_agree row_german 0 0) \<and>
   restDays \<lparr> id_field = 1, name = Str ''Zoom Pro'', status = Str ''online'',
              startDate = Some (ISO 1709251200000), endDate = Some (ISO 1740787200000),
              restDays = Fin 273, laufzeit = Fin 12, abgelaufeneMonate = Fin 2 \<rparr>
     = Fin (of_int (fns_differenceInDays refLib 1740787200000 (clock_month_end 0))) \<and>
   processExcelData refLib clock_month_end sampleData 0
     = processExcelData refLib clock_agree sampleData 0 \<and>
   snd (processExcelData refLib clock_month_end sampleData 0) \<le> 4"
proof -
  let ?r = "\<lparr> id_field = 1, name = Str ''Zoom Pro'', status = Str ''online'',
              startDate = Some (ISO 1709251200000), endDate = Some (ISO 1740787200000),
              restDays = Fin 273, laufzeit = Fin 12, abgelaufeneMonate = Fin 2 \<rparr>"
  have n1: "parseExcelDate refLib (get_prop row_nodate ''Startdatum'') = None"
    by code_simp
  have p: "parseExcelDate refLib (get_prop row_german ''Startdatum'') = Some (Time 1709251200000)"
    by code_simp
  have b: "fst (processItem refLib clock_month_end row_german 0 0) = Inr ?r"
    by code_simp
  have e: "clock_month_end 0 = clock_agree 0" "clock_month_end 1 = clock_agree 1"
    "clock_month_end 4 \<noteq> clock_agree 4"
    by (simp_all add: clock_month_end_def clock_agree_def)
  have h: "\<forall>k. 0 \<le> k \<and> k < 0 + 2 * length sampleData \<longrightarrow> clock_month_end k = clock_agree k"
    by (simp add: clock_month_end_def clock_agree_def sampleData_def)
  have len: "length sampleData = 2" by (simp add: sampleData_def)
  note a = processExcelData_clock_reads
    [of refLib clock_month_end row_nodate 0 0 clock_crossing 7 ?r 0 0 sampleData clock_agree]
  note g = processExcelData_clock_reads
    [of refLib clock_month_end row_german 0 0 clock_agree 0 ?r 1709251200000 1740787200000
        sampleData clock_agree]
  have w1: "fst (processItem refLib clock_month_end row_nodate 0 0)
     = fst (processItem refLib clock_crossing row_nodate 0 7)"
    using a n1 by (elim conjE) simp
  have w2: "snd (processItem refLib clock_month_end row_german 0 0) = 2"
    using g p by (elim conjE) simp
  have w3: "fst (processItem refLib clock_month_end row_german 0 0)
     = fst (processItem refLib clock_agree row_german 0 0)"
    using g e by (elim conjE) simp
  have w4: "restDays ?r = Fin (of_int (fns_differenceInDays refLib 1740787200000 (clock_month_end 0)))"
    using g b by (elim conjE) simp
  have w5: "processExcelData refLib clock_month_end sampleData 0
     = processExcelData refLib clock_agree sampleData 0"
    using g h by (elim conjE) blast
  have w6: "snd (processExcelData refLib clock_month_end sampleData 0) \<le> 4"
    using g len by (elim conjE) simp
  show ?thesis
    by (intro conjI) (rule n1 w1 w2 e w3 w4 w5 w6)+
qed

section \<open>Numeric cells\<close>

lemma trunc_of_int: "trunc (of_int k) = k"
  by (simp add: trunc_def)

lemma trunc_numerals:
  "trunc 0 = 0" "trunc 1 = 1" "trunc (numeral w) = numeral w" "trunc (- numeral w) = - numeral w"
  using trunc_of_int [of 0] trunc_of_int [of 1] trunc_of_int [of "numeral w"]
    trunc_of_int [of "- numeral w"]
  by simp_all

lemma excelEpoch: "newDate_ymd (Fin 1900) (Fin 0) (Fin 1) = Time (- 2208988800000)"
  by (simp add: newDate_ymd_def MakeFullYear_def MakeDay_def DayFromYear_def
      DaysBeforeMonth_def msPerDay_def TimeClip_def trunc_numerals)

lemma parseExcelDate_number:
  assumes "q \<noteq> 0"
  shows "parseExcelDate L (Num (Fin q))
           = nonNaN (TimeClip (Fin (- 2208988800000 + (q - 1) * 86400000)))"
  using assms
  by (simp add: parseExcelDate_def excelEpoch getTime_def newDate_num_def num_sub_def
      algebra_simps)

lemma safeParseDate_number:
  assumes "q \<noteq> 0"
  shows "safeParseDate L clk (Num (Fin q)) n = (nonNaN (TimeClip (Fin q)), n)"
  using assms
  by (simp add: safeParseDate_def newDate_num_def nonNaN_eq isValid_def split: jsdate.splits)

lemma MakeDay_1899_12_31: "MakeDay 1899 11 31 = - 25568"
  by (simp add: MakeDay_def DayFromYear_def DaysBeforeMonth_def InLeapYear_def)

lemma MakeDay_1899_12_30: "MakeDay 1899 11 30 = - 25569"
  by (simp add: MakeDay_def DayFromYear_def DaysBeforeMonth_def InLeapYear_def)

lemma parseExcelDate_serial:
  assumes "k \<noteq> 0" and "\<bar>k - 25568\<bar> \<le> 100000000"
  shows "parseExcelDate L (Num (Fin (of_int k))) = Some (Time ((MakeDay 1899 11 31 + k) * msPerDay))"
proof -
  have e: "(- 2208988800000 + (of_int k - 1) * 86400000 :: rat) = of_int ((k - 25568) * 86400000)"
    by simp
  have "\<bar>(k - 25568) * 86400000\<bar> \<le> 8640000000000000"
    using assms(2) by (simp add: abs_mult)
  then have r: "\<not> \<bar>of_int ((k - 25568) * 86400000) :: rat\<bar> > 8640000000000000"
    by (metis of_int_abs of_int_le_iff of_int_numeral not_less)
  have "parseExcelDate L (Num (Fin (of_int k)))
      = nonNaN (TimeClip (Fin (of_int ((k - 25568) * 86400000))))"
    using assms(1) parseExcelDate_number [of "of_int k" L] e by simp
  also have "\<dots> = Some (Time ((k - 25568) * 86400000))"
    using r by (simp add: TimeClip_def nonNaN_eq trunc_of_int del: of_int_mult of_int_diff)
  finally show ?thesis by (simp add: MakeDay_1899_12_31 msPerDay_def)
qed

lemma safeParseDate_timestamp:
  assumes "k \<noteq> 0" and "\<bar>k\<bar> \<le> 8640000000000000"
  shows "safeParseDate L clk (Num (Fin (of_int k))) n = (Some (Time k), n)"
proof -
  have r: "\<not> \<bar>of_int k :: rat\<bar> > 8640000000000000"
    using assms(2) by (metis of_int_abs of_int_le_iff of_int_numeral not_less)
  show ?thesis
    using assms(1) r safeParseDate_number [of "of_int k" L clk n]
    by (simp add: TimeClip_def nonNaN_eq trunc_of_int)
qed

text \<open>
  C2. The parsers do not decode a number as a day serial on the epoch 1899-12-30. For
  the serial 45352 that epoch gives 2024-03-01; \<^verbatim>\<open>parseExcelDate\<close> returns 2024-03-02
  (its epoch puts serial 1 on 1900-01-01, so every serial comes out one day late), and
  \<^verbatim>\<open>safeParseDate\<close> returns the instant 45352 milliseconds after
  1970-01-01T00:00:00Z, whatever the library.
\<close>

theorem serial_45352_off_epoch:
  "parseExcelDate L (Num (Fin 45352)) = Some (Time (MakeDay 2024 2 2 * msPerDay)) \<and>
   fst (safeParseDate L clk (Num (Fin 45352)) n) = Some (Time 45352) \<and>
   MakeDay 1899 11 30 + 45352 = MakeDay 2024 2 1 \<and>
   parseExcelDate L (Num (Fin 45352)) \<noteq> Some (Time ((MakeDay 1899 11 30 + 45352) * msPerDay)) \<and>
   fst (safeParseDate L clk (Num (Fin 45352)) n)
     \<noteq> Some (Time ((MakeDay 1899 11 30 + 45352) * msPerDay))"
proof -
  have a: "parseExcelDate L (Num (Fin 45352)) = Some (Time ((MakeDay 1899 11 31 + 45352) * msPerDay))"
    using parseExcelDate_serial [of 45352 L] by simp
  have b: "safeParseDate L clk (Num (Fin 45352)) n = (Some (Time 45352), n)"
    using safeParseDate_timestamp [of 45352 L clk n] by simp
  have c: "MakeDay 2024 2 2 = 19784" "MakeDay 2024 2 1 = 19783"
    by (simp_all add: MakeDay_def DayFromYear_def DaysBeforeMonth_def InLeapYear_def)
  show ?thesis
    using a b c
    by (simp add: MakeDay_1899_12_31 MakeDay_1899_12_30 msPerDay_def)
qed

section \<open>The format rules\<close>

lemma tryFormats_find:
  "fst (tryFormats L clk t fs n) = List.find isValid (formatResults L clk t fs n)"
  by (induction fs arbitrary: n) (auto split: sum.splits simp: isValid_def)

lemma formatsThenNative_find:
  "fst (formatsThenNative L clk t n) =
     (case List.find isValid (formatResults L clk t formats n) of
        Some d \<Rightarrow> Some d
      | None \<Rightarrow> nonNaN (Date_parse L t))"
proof -
  obtain a m where p: "tryFormats L clk t formats n = (a, m)"
    by (cases "tryFormats L clk t formats n")
  then have ae: "List.find isValid (formatResults L clk t formats n) = a"
    using tryFormats_find [of L clk t formats n] by simp
  show ?thesis
    unfolding ae formatsThenNative_def p
    by (cases a) (simp_all add: nonNaN_eq isValid_def Let_def split: jsdate.splits)
qed

lemma safeParseDate_patterns:
  assumes "trim s \<noteq> []" and "\<not> includes_char (trim s) CHR ''T''"
    and "\<not> includes_char (trim s) CHR ''Z''"
  shows "fst (safeParseDate L clk (Str s) n) =
     (case List.find isValid (formatResults L clk (trim s) formats n) of
        Some d \<Rightarrow> Some d
      | None \<Rightarrow> nonNaN (Date_parse L (trim s)))"
proof -
  from assms(1) have "s \<noteq> []" by (auto simp: trim_def)
  with assms show ?thesis
    by (simp add: safeParseDate_def formatsThenNative_find)
qed

lemma shape_Cons:
  "shape (p # ps) t =
     (case t of [] \<Rightarrow> False
      | c # cs \<Rightarrow> (if p = CHR ''d'' then isDigit c else c = p) \<and> shape ps cs)"
  by (cases t) auto

lemma shape_Nil: "shape [] t = (t = [])"
  by (cases t) auto

lemma isDigit_not_special:
  assumes "isDigit c"
  shows "c \<noteq> CHR ''/''" "c \<noteq> CHR ''.''" "c \<noteq> CHR ''-''" "c \<noteq> CHR ''+''"
    "c \<noteq> CHR ''x''" "c \<noteq> CHR ''X''" "\<not> isWhiteSpace c"
  using assms by (auto simp: isDigit_def digitVal_def isWhiteSpace_def)

lemma parseInt_digits:
  assumes "list_all isDigit z" and "z \<noteq> []"
  shows "parseInt z = Fin (of_int (int (digitsVal 10 0 z)))"
proof -
  from assms obtain c cs where z: "z = c # cs" and c: "isDigit c" and cs: "list_all isDigit cs"
    by (cases z) auto
  have tw: "takeWhile (\<lambda>c. digitVal 10 c \<noteq> None) z = z"
    using assms(1) by (simp add: takeWhile_eq_all_conv list_all_iff isDigit_def del: not_None_eq)
  have nohex: "take 2 z \<noteq> ''0x''" "take 2 z \<noteq> ''0X''"
    using z cs isDigit_not_special(5,6) by (cases cs; auto)+
  have dw: "dropWhile isWhiteSpace z = z"
    using z c isDigit_not_special(7) by simp
  have t1: "take 1 z \<noteq> ''-''" "take 1 z \<noteq> ''+''"
    using z c isDigit_not_special(3,4) by auto
  show ?thesis
    unfolding parseInt_def Let_def dw
    using t1 nohex assms(2) by (simp add: tw del: not_None_eq)
qed

lemma shape_us:
  assumes "shape ''dd/dd/dddd'' t"
  obtains a b c d e f g h where "t = [a, b, CHR ''/'', c, d, CHR ''/'', e, f, g, h]"
    "isDigit a" "isDigit b" "isDigit c" "isDigit d" "isDigit e" "isDigit f" "isDigit g" "isDigit h"
  using assms by (auto simp: shape_Cons shape_Nil split: list.splits)

lemma split_us:
  assumes "isDigit a" "isDigit b" "isDigit c" "isDigit d" "isDigit e" "isDigit f" "isDigit g" "isDigit h"
  shows "split CHR ''/'' [a, b, CHR ''/'', c, d, CHR ''/'', e, f, g, h] = [[a, b], [c, d], [e, f, g, h]]"
  using assms isDigit_not_special(1) by simp

lemma isDigit_separators:
  "\<not> isDigit CHR ''/''" "\<not> isDigit CHR ''.''" "\<not> isDigit CHR ''-''"
  by (simp_all add: isDigit_def digitVal_def)

lemma parseExcelDate_string:
  assumes "trim s \<noteq> []"
  shows "parseExcelDate L (Str s) =
     (if shape ''dddd-dd-dd'' (trim s) then nonNaN (Date_parse L (trim s @ ''T00:00:00''))
      else if shape ''dd.dd.dddd'' (trim s) then
        nonNaN (newDate_ymd (parseInt_opt (element (split CHR ''.'' (trim s)) 2))
                  (num_sub (parseInt_opt (element (split CHR ''.'' (trim s)) 1)) (Fin 1))
                  (parseInt_opt (element (split CHR ''.'' (trim s)) 0)))
      else if shape ''dd/dd/dddd'' (trim s) then
        nonNaN (newDate_ymd (parseInt_opt (element (split CHR ''/'' (trim s)) 2))
                  (num_sub (parseInt_opt (element (split CHR ''/'' (trim s)) 0)) (Fin 1))
                  (parseInt_opt (element (split CHR ''/'' (trim s)) 1)))
      else nonNaN (Date_parse L (trim s)))"
proof -
  from assms have "s \<noteq> []" by (auto simp: trim_def)
  with assms show ?thesis by (simp add: parseExcelDate_def Let_def)
qed

lemma shape_nonempty: "shape (p # ps) t \<Longrightarrow> t \<noteq> []"
  by (cases t) auto

lemma three_parts:
  "parseInt_opt (element [x, y, z] 0) = parseInt x"
  "parseInt_opt (element [x, y, z] 1) = parseInt y"
  "parseInt_opt (element [x, y, z] 2) = parseInt z"
  by (simp_all add: element_def parseInt_opt_def)

lemma parseExcelDate_us_chars:
  assumes t: "trim s = [a, b, CHR ''/'', c, d, CHR ''/'', e, f, g, h]"
    and dg: "isDigit a" "isDigit b" "isDigit c" "isDigit d" "isDigit e" "isDigit f" "isDigit g" "isDigit h"
    and sh: "shape ''dd/dd/dddd'' (trim s)"
  shows "parseExcelDate L (Str s) =
     nonNaN (newDate_ymd (Fin (of_int (field ''MM/dd/yyyy'' (trim s) CHR ''y'')))
               (Fin (of_int (field ''MM/dd/yyyy'' (trim s) CHR ''M'') - 1))
               (Fin (of_int (field ''MM/dd/yyyy'' (trim s) CHR ''d''))))"
proof -
  have ne: "trim s \<noteq> []" using t by simp
  have n1: "shape ''dddd-dd-dd'' (trim s) = False" "shape ''dd.dd.dddd'' (trim s) = False"
    unfolding t by (simp_all add: isDigit_separators)
  have p: "parseInt [a, b] = Fin (of_int (int (digitsVal 10 0 [a, b])))"
    "parseInt [c, d] = Fin (of_int (int (digitsVal 10 0 [c, d])))"
    "parseInt [e, f, g, h] = Fin (of_int (int (digitsVal 10 0 [e, f, g, h])))"
    using dg by (simp_all add: parseInt_digits)
  have fl: "field ''MM/dd/yyyy'' (trim s) CHR ''y'' = int (digitsVal 10 0 [e, f, g, h])"
    "field ''MM/dd/yyyy'' (trim s) CHR ''M'' = int (digitsVal 10 0 [a, b])"
    "field ''MM/dd/yyyy'' (trim s) CHR ''d'' = int (digitsVal 10 0 [c, d])"
    unfolding t field_def by simp_all
  have sp: "split CHR ''/'' (trim s) = [[a, b], [c, d], [e, f, g, h]]"
    unfolding t by (rule split_us [OF dg])
  have "parseExcelDate L (Str s) =
      nonNaN (newDate_ymd (parseInt [e, f, g, h]) (num_sub (parseInt [a, b]) (Fin 1)) (parseInt [c, d]))"
    using sh by (simp only: parseExcelDate_string [OF ne] n1 if_False if_True sp three_parts)
  then show ?thesis
    unfolding p fl by (simp add: num_sub_def del: digitsVal.simps)
qed

lemma parseExcelDate_us:
  assumes "shape ''dd/dd/dddd'' (trim s)"
  shows "parseExcelDate L (Str s) =
     nonNaN (newDate_ymd (Fin (of_int (field ''MM/dd/yyyy'' (trim s) CHR ''y'')))
               (Fin (of_int (field ''MM/dd/yyyy'' (trim s) CHR ''M'') - 1))
               (Fin (of_int (field ''MM/dd/yyyy'' (trim s) CHR ''d''))))"
proof (rule shape_us [OF assms])
  fix a b c d e f g h
  assume "trim s = [a, b, CHR ''/'', c, d, CHR ''/'', e, f, g, h]"
    "isDigit a" "isDigit b" "isDigit c" "isDigit d" "isDigit e" "isDigit f" "isDigit g" "isDigit h"
  then show ?thesis using assms by (rule parseExcelDate_us_chars)
qed

lemma us_example:
  "parseExcelDate L (Str ''13/01/2024'') = Some (Time (MakeDay 2025 0 1 * msPerDay))"
proof -
  have t: "trim ''13/01/2024'' = ''13/01/2024''" by code_simp
  have sh: "shape ''dd/dd/dddd'' (trim ''13/01/2024'')" unfolding t by code_simp
  have f: "field ''MM/dd/yyyy'' ''13/01/2024'' CHR ''y'' = 2024"
    "field ''MM/dd/yyyy'' ''13/01/2024'' CHR ''M'' = 13"
    "field ''MM/dd/yyyy'' ''13/01/2024'' CHR ''d'' = 1"
    by code_simp+
  have d: "newDate_ymd (Fin 2024) (Fin 12) (Fin 1) = Time (MakeDay 2025 0 1 * msPerDay)"
    by code_simp
  show ?thesis
    using parseExcelDate_us [OF sh, of L] by (simp add: t f d nonNaN_eq)
qed

text \<open>
  C8. \<^verbatim>\<open>safeParseDate\<close> follows the ordered format list (\<open>safeParseDate_patterns\<close>);
  \<^verbatim>\<open>parseExcelDate\<close> does not. For the string 13/01/2024 the list gives 2024-01-13:
  \<open>MM/dd/yyyy\<close> has the shape but names no month 13, and \<open>dd/MM/yyyy\<close> is the first
  format that gives a valid date; \<^verbatim>\<open>safeParseDate\<close>, over a library that parses by
  layout, returns that date. \<^verbatim>\<open>parseExcelDate\<close> stops at its slash rule and returns
  2025-01-01, whatever the library.
\<close>

theorem slash_date_not_by_list:
  "parseExcelDate L (Str ''13/01/2024'') = Some (Time (MakeDay 2025 0 1 * msPerDay)) \<and>
   spec_patternParse ''13/01/2024'' = Some (Time (MakeDay 2024 0 13 * msPerDay)) \<and>
   fst (safeParseDate refLib clock_2024_06_01 (Str ''13/01/2024'') 0)
     = Some (Time (MakeDay 2024 0 13 * msPerDay)) \<and>
   parseExcelDate L (Str ''13/01/2024'') \<noteq> spec_patternParse ''13/01/2024''"
proof -
  have a: "spec_patternParse ''13/01/2024'' = Some (Time (MakeDay 2024 0 13 * msPerDay))"
    by code_simp
  have b: "MakeDay 2025 0 1 * msPerDay \<noteq> MakeDay 2024 0 13 * msPerDay"
    by code_simp
  have c: "fst (safeParseDate refLib clock_2024_06_01 (Str ''13/01/2024'') 0)
     = Some (Time (MakeDay 2024 0 13 * msPerDay))"
    by code_simp
  show ?thesis
    using a b c us_example [of L] by simp
qed

end
